theory Spec2Isabelle
  imports Main "HOL-Library.Multiset"
begin

section \<open>Data model\<close>

text \<open>
  The services (\<^verbatim>\<open>orderService.js\<close>, \<^verbatim>\<open>cartService.js\<close>) talk to a relational store
  through Prisma. The store is modelled as a record of tables that every operation takes
  and returns. JavaScript numbers (product prices, quantities, totals) are kept as an
  abstract type \<open>'n\<close> of which only \<open>0\<close>, \<open>+\<close>, \<open>*\<close> and \<open>\<le>\<close> are used, with no algebraic law
  assumed, so that every statement reads the same for IEEE doubles. Identifiers are the
  store's uuid strings; an identifier generated by the store for a new row is an argument
  of the operation that inserts the row, as is the clock reading \<open>now\<close> used for
  timestamps (one reading per call, in milliseconds). Storage calls outside the
  order-creation transaction are taken to succeed.
\<close>

datatype order_status = PENDENTE | EM_PREPARO | PRONTO | ENTREGUE | CANCELADO

text \<open>
  An \<^verbatim>\<open>Error\<close> thrown by a service carries a message and a \<^verbatim>\<open>statusCode\<close>; an error
  thrown by the storage client itself (a failed write, a violated constraint, a required
  relation that reads as null) carries none.
\<close>

datatype error = AppError (message: string) (statusCode: nat) | StoreError

record 'n product =
  p_name :: string
  p_price :: 'n
  p_isAvailable :: bool

record cart =
  cart_id :: string

record 'n cart_item =
  ci_id :: string
  ci_cartId :: string
  ci_productId :: string
  ci_quantity :: 'n
  ci_notes :: "string option"
  ci_createdAt :: nat

record 'n order_item =
  oi_productId :: string
  oi_productName :: string
  oi_quantity :: 'n
  oi_unitPrice :: 'n
  oi_totalPrice :: 'n
  oi_notes :: "string option"

record status_history =
  sh_status :: order_status
  sh_changedBy :: "string option"
  sh_notes :: "string option"
  sh_changedAt :: nat

text \<open>
  OrderItem and OrderStatusHistory rows are reached by the code only through their order
  (nested \<^verbatim>\<open>create\<close>, \<^verbatim>\<open>include\<close>), so they are kept with the order, in insertion order.
\<close>

record 'n order =
  o_id :: string
  o_orderNumber :: int
  o_userId :: string
  o_totalAmount :: 'n
  o_notes :: "string option"
  o_status :: order_status
  o_items :: "'n order_item list"
  o_statusHistory :: "status_history list"
  o_preparedAt :: "nat option"
  o_readyAt :: "nat option"
  o_deliveredAt :: "nat option"
  o_cancelledAt :: "nat option"

text \<open>
  Tables with a unique key the code looks rows up by are maps from that key: products and
  orders by \<^verbatim>\<open>id\<close>, carts by \<^verbatim>\<open>userId\<close> (one cart per user), counters by \<^verbatim>\<open>id\<close>. Cart items
  are a list of rows, so that two rows for one (cart, product) pair are representable.
\<close>

record 'n db =
  products :: "string \<rightharpoonup> 'n product"
  carts :: "string \<rightharpoonup> cart"
  cartItems :: "'n cart_item list"
  orders :: "string \<rightharpoonup> 'n order"
  counters :: "string \<rightharpoonup> int"

section \<open>Storage primitives\<close>

text \<open>
  \<^verbatim>\<open>include: { product: true }\<close> on cart items: \<^verbatim>\<open>product\<close> is a required relation, and
  the client throws when the referenced row is missing.
\<close>

fun include_product ::
  "(string \<rightharpoonup> 'n product) \<Rightarrow> 'n cart_item list \<Rightarrow> error + ('n cart_item \<times> 'n product) list" where
  "include_product ps [] = Inr []"
| "include_product ps (i # rest) =
     (case ps (ci_productId i) of
        None \<Rightarrow> Inl StoreError
      | Some p \<Rightarrow>
          (case include_product ps rest of
             Inl e \<Rightarrow> Inl e
           | Inr r \<Rightarrow> Inr ((i, p) # r)))"

definition items_of_cart :: "'n db \<Rightarrow> string \<Rightarrow> 'n cart_item list" where
  "items_of_cart d cid = filter (\<lambda>i. ci_cartId i = cid) (cartItems d)"

text \<open>
  The faults a storage call inside the order-creation transaction can raise. The fault is
  an input of the model: which call throws is decided by the environment (a lost
  connection, a violated constraint).
\<close>

datatype fault =
  NoFault | FailCounterUpsert | FailOrderInsert | FailOrderItemsInsert
  | FailHistoryInsert | FailCartPurge

text \<open>
  \<^verbatim>\<open>tx.counter.upsert({ where: { id }, update: { value: { increment: 1 } },
  create: { id, value: 1 } })\<close>; returns the row's value after the write.
\<close>

definition counter_upsert :: "fault \<Rightarrow> 'n db \<Rightarrow> (error + int) \<times> 'n db" where
  "counter_upsert f d =
     (if f = FailCounterUpsert then (Inl StoreError, d)
      else
        (case counters d ''order_counter'' of
           Some v \<Rightarrow> (Inr (v + 1), d\<lparr>counters := (counters d)(''order_counter'' \<mapsto> v + 1)\<rparr>)
         | None \<Rightarrow> (Inr 1, d\<lparr>counters := (counters d)(''order_counter'' \<mapsto> 1)\<rparr>)))"

text \<open>
  \<^verbatim>\<open>tx.order.create\<close> with nested \<^verbatim>\<open>items.create\<close> and \<^verbatim>\<open>statusHistory.create\<close>: the
  order row is inserted first (a primary-key clash throws), then its items, then its
  first history entry. A throw leaves the writes made so far in the running transaction.
  The value returned is the stored row; the product details that \<^verbatim>\<open>include\<close> joins to the
  items in the code are left out.
\<close>

definition order_create :: "fault \<Rightarrow> 'n order \<Rightarrow> 'n db \<Rightarrow> (error + 'n order) \<times> 'n db" where
  "order_create f data d =
     (if f = FailOrderInsert \<or> orders d (o_id data) \<noteq> None then (Inl StoreError, d)
      else
        let row = data\<lparr>o_items := [], o_statusHistory := []\<rparr>;
            d1 = d\<lparr>orders := (orders d)(o_id data \<mapsto> row)\<rparr>
        in if f = FailOrderItemsInsert then (Inl StoreError, d1)
           else
             let row2 = row\<lparr>o_items := o_items data\<rparr>;
                 d2 = d1\<lparr>orders := (orders d1)(o_id data \<mapsto> row2)\<rparr>
             in if f = FailHistoryInsert then (Inl StoreError, d2)
                else
                  let row3 = row2\<lparr>o_statusHistory := o_statusHistory data\<rparr>
                  in (Inr row3, d2\<lparr>orders := (orders d2)(o_id data \<mapsto> row3)\<rparr>))"

text \<open>\<^verbatim>\<open>cartItem.deleteMany({ where: { cartId } })\<close>\<close>

definition cartItem_deleteMany :: "fault \<Rightarrow> string \<Rightarrow> 'n db \<Rightarrow> (error + unit) \<times> 'n db" where
  "cartItem_deleteMany f cid d =
     (if f = FailCartPurge then (Inl StoreError, d)
      else (Inr (), d\<lparr>cartItems := filter (\<lambda>i. ci_cartId i \<noteq> cid) (cartItems d)\<rparr>))"

text \<open>
  \<^verbatim>\<open>prisma.$transaction(async (tx) => ...)\<close>: when the callback throws, every write it made
  is rolled back and the error is rethrown; otherwise its writes are committed.
\<close>

definition transaction :: "('s \<Rightarrow> (error + 'a) \<times> 's) \<Rightarrow> 's \<Rightarrow> (error + 'a) \<times> 's" where
  "transaction body d =
     (case body d of
        (Inl e, _) \<Rightarrow> (Inl e, d)
      | (Inr r, d') \<Rightarrow> (Inr r, d'))"

section \<open>OrderService.createFromCart\<close>

text \<open>The availability loop: the first unavailable product, in cart order, is reported.\<close>

fun check_available :: "('n cart_item \<times> 'n product) list \<Rightarrow> error option" where
  "check_available [] = None"
| "check_available ((item, p) # rest) =
     (if \<not> p_isAvailable p
      then Some (AppError (''Produto '' @ [CHR 0x22] @ p_name p @ [CHR 0x22]
                            @ '' nao esta mais disponivel'') 400)
      else check_available rest)"

text \<open>
  \<^verbatim>\<open>cart.items.map\<close> with the running \<^verbatim>\<open>totalAmount += itemTotal\<close>: the accumulator is
  threaded through the traversal.
\<close>

fun prepare_items ::
  "'n::{plus,times} \<Rightarrow> ('n cart_item \<times> 'n product) list \<Rightarrow> 'n \<times> 'n order_item list" where
  "prepare_items totalAmount [] = (totalAmount, [])"
| "prepare_items totalAmount ((item, p) # rest) =
     (let itemTotal = p_price p * ci_quantity item;
          (total', ois) = prepare_items (totalAmount + itemTotal) rest
      in (total',
          \<lparr>oi_productId = ci_productId item,
           oi_productName = p_name p,
           oi_quantity = ci_quantity item,
           oi_unitPrice = p_price p,
           oi_totalPrice = itemTotal,
           oi_notes = ci_notes item\<rparr> # ois))"

text \<open>
  The callback of the transaction: counter upsert, order creation with the counter's value
  as \<^verbatim>\<open>orderNumber\<close>, cart purge. The first call that throws ends it.
\<close>

definition create_tx ::
  "fault \<Rightarrow> string \<Rightarrow> nat \<Rightarrow> string \<Rightarrow> string option \<Rightarrow> 'n \<Rightarrow> 'n order_item list \<Rightarrow> string
    \<Rightarrow> 'n db \<Rightarrow> (error + 'n order) \<times> 'n db" where
  "create_tx f newId now userId notes totalAmount orderItems cid d =
     (case counter_upsert f d of
        (Inl e, d1) \<Rightarrow> (Inl e, d1)
      | (Inr v, d1) \<Rightarrow>
          (case order_create f
                  \<lparr>o_id = newId, o_orderNumber = v, o_userId = userId,
                   o_totalAmount = totalAmount, o_notes = notes, o_status = PENDENTE,
                   o_items = orderItems,
                   o_statusHistory =
                     [\<lparr>sh_status = PENDENTE, sh_changedBy = None,
                       sh_notes = Some ''Pedido criado'', sh_changedAt = now\<rparr>],
                   o_preparedAt = None, o_readyAt = None, o_deliveredAt = None,
                   o_cancelledAt = None\<rparr> d1 of
             (Inl e, d2) \<Rightarrow> (Inl e, d2)
           | (Inr newOrder, d2) \<Rightarrow>
               (case cartItem_deleteMany f cid d2 of
                  (Inl e, d3) \<Rightarrow> (Inl e, d3)
                | (Inr _, d3) \<Rightarrow> (Inr newOrder, d3))))"

text \<open>
  \<^verbatim>\<open>createFromCart(userId, notes)\<close>: read the cart with its items and their products, reject
  an absent or empty cart and an unavailable product, prepare the order items and the
  total, then run the transaction. \<open>f\<close> is the fault of this run, \<open>newId\<close> the identifier the
  store gives the order.
\<close>

definition createFromCart ::
  "fault \<Rightarrow> string \<Rightarrow> nat \<Rightarrow> string \<Rightarrow> string option \<Rightarrow> 'n::{zero,plus,times} db
    \<Rightarrow> (error + 'n order) \<times> 'n db" where
  "createFromCart f newId now userId notes d =
     (case carts d userId of
        None \<Rightarrow> (Inl (AppError ''Carrinho vazio'' 400), d)
      | Some c \<Rightarrow>
          (case include_product (products d) (items_of_cart d (cart_id c)) of
             Inl e \<Rightarrow> (Inl e, d)
           | Inr items \<Rightarrow>
               if length items = 0 then (Inl (AppError ''Carrinho vazio'' 400), d)
               else
                 (case check_available items of
                    Some e \<Rightarrow> (Inl e, d)
                  | None \<Rightarrow>
                      let (totalAmount, orderItems) = prepare_items 0 items
                      in transaction
                           (create_tx f newId now userId notes totalAmount orderItems (cart_id c))
                           d)))"

section \<open>OrderService: cancel, updateStatus, getById\<close>

text \<open>\<^verbatim>\<open>orderBy: { <field>: 'desc' }\<close>: rows by decreasing key.\<close>

definition order_by_desc :: "('a \<Rightarrow> nat) \<Rightarrow> 'a list \<Rightarrow> 'a list" where
  "order_by_desc key xs = rev (sort_key key xs)"

text \<open>\<^verbatim>\<open>order.findFirst({ where: { id, userId } })\<close>\<close>

definition order_findFirst :: "'n db \<Rightarrow> string \<Rightarrow> string \<Rightarrow> 'n order option" where
  "order_findFirst d oid userId =
     (case orders d oid of
        None \<Rightarrow> None
      | Some ord \<Rightarrow> if o_userId ord = userId then Some ord else None)"

text \<open>
  \<^verbatim>\<open>order.update({ where: { id }, data: { ..., statusHistory: { create: entry } } })\<close>: the
  row is replaced and the entry is appended to its history.
\<close>

definition order_update :: "string \<Rightarrow> 'n order \<Rightarrow> status_history \<Rightarrow> 'n db \<Rightarrow> 'n order \<times> 'n db" where
  "order_update oid row entry d =
     (let row' = row\<lparr>o_statusHistory := o_statusHistory row @ [entry]\<rparr>
      in (row', d\<lparr>orders := (orders d)(oid \<mapsto> row')\<rparr>))"

text \<open>\<^verbatim>\<open>cancel(id, userId)\<close>\<close>

definition cancel :: "nat \<Rightarrow> string \<Rightarrow> string \<Rightarrow> 'n db \<Rightarrow> (error + 'n order) \<times> 'n db" where
  "cancel now oid userId d =
     (case order_findFirst d oid userId of
        None \<Rightarrow> (Inl (AppError ''Pedido nao encontrado'' 404), d)
      | Some ord \<Rightarrow>
          if o_status ord \<noteq> PENDENTE
          then (Inl (AppError ''Apenas pedidos pendentes podem ser cancelados'' 400), d)
          else
            let (updatedOrder, d') =
                  order_update oid
                    (ord\<lparr>o_status := CANCELADO, o_cancelledAt := Some now\<rparr>)
                    \<lparr>sh_status = CANCELADO, sh_changedBy = None,
                     sh_notes = Some ''Cancelado pelo cliente'', sh_changedAt = now\<rparr> d
            in (Inr updatedOrder, d'))"

text \<open>
  Modelled from the spec: \<^verbatim>\<open>utils/constants.js\<close>, which defines \<^verbatim>\<open>ORDER_STATUS\<close> and
  \<^verbatim>\<open>VALID_STATUS_TRANSITIONS\<close>, is not among the sources. The table is the one of the
  specification (section 4.3), which the doc comment of \<^verbatim>\<open>updateStatus\<close> repeats.
\<close>

fun VALID_STATUS_TRANSITIONS :: "order_status \<Rightarrow> order_status list" where
  "VALID_STATUS_TRANSITIONS PENDENTE = [EM_PREPARO, CANCELADO]"
| "VALID_STATUS_TRANSITIONS EM_PREPARO = [PRONTO, CANCELADO]"
| "VALID_STATUS_TRANSITIONS PRONTO = [ENTREGUE, CANCELADO]"
| "VALID_STATUS_TRANSITIONS ENTREGUE = []"
| "VALID_STATUS_TRANSITIONS CANCELADO = []"

text \<open>
  Modelled from the spec: the string each status stands for in \<^verbatim>\<open>ORDER_STATUS\<close>, which is
  defined in the same missing file; the strings are the literals used elsewhere in the code
  base (\<^verbatim>\<open>'PENDENTE'\<close>, \<^verbatim>\<open>'EM_PREPARO'\<close>, ...). They only appear in error messages.
\<close>

fun ORDER_STATUS :: "order_status \<Rightarrow> string" where
  "ORDER_STATUS PENDENTE = ''PENDENTE''"
| "ORDER_STATUS EM_PREPARO = ''EM_PREPARO''"
| "ORDER_STATUS PRONTO = ''PRONTO''"
| "ORDER_STATUS ENTREGUE = ''ENTREGUE''"
| "ORDER_STATUS CANCELADO = ''CANCELADO''"

text \<open>
  \<^verbatim>\<open>updateStatus(id, newStatus, adminId, notes)\<close>; \<^verbatim>\<open>newStatus\<close> is one of the five statuses
  (the route validates it). The order returned has its history newest first.
\<close>

definition updateStatus ::
  "nat \<Rightarrow> string \<Rightarrow> order_status \<Rightarrow> string \<Rightarrow> string option \<Rightarrow> 'n db
    \<Rightarrow> (error + 'n order) \<times> 'n db" where
  "updateStatus now oid newStatus adminId notes d =
     (case orders d oid of
        None \<Rightarrow> (Inl (AppError ''Pedido nao encontrado'' 404), d)
      | Some ord \<Rightarrow>
          let validTransitions = VALID_STATUS_TRANSITIONS (o_status ord)
          in if \<not> List.member validTransitions newStatus
             then (Inl (AppError (''Nao e possivel mudar de '' @ ORDER_STATUS (o_status ord)
                                   @ '' para '' @ ORDER_STATUS newStatus) 400), d)
             else
               let u0 = ord\<lparr>o_status := newStatus\<rparr>;
                   u1 = (if newStatus = EM_PREPARO then u0\<lparr>o_preparedAt := Some now\<rparr> else u0);
                   u2 = (if newStatus = PRONTO then u1\<lparr>o_readyAt := Some now\<rparr> else u1);
                   u3 = (if newStatus = ENTREGUE then u2\<lparr>o_deliveredAt := Some now\<rparr> else u2);
                   u4 = (if newStatus = CANCELADO then u3\<lparr>o_cancelledAt := Some now\<rparr> else u3);
                   (updatedOrder, d') =
                     order_update oid u4
                       \<lparr>sh_status = newStatus, sh_changedBy = Some adminId,
                        sh_notes = notes, sh_changedAt = now\<rparr> d
               in (Inr (updatedOrder\<lparr>o_statusHistory :=
                          order_by_desc sh_changedAt (o_statusHistory updatedOrder)\<rparr>), d'))"

text \<open>
  \<^verbatim>\<open>getById(id, userId, isAdmin)\<close>: the filter gets the \<^verbatim>\<open>userId\<close> only for a requester who
  is not an admin. The result is the order with its items and its history, newest first;
  the customer and product details joined by \<^verbatim>\<open>include\<close> are left out.
\<close>

definition getById :: "string \<Rightarrow> string \<Rightarrow> bool \<Rightarrow> 'n db \<Rightarrow> (error + 'n order) \<times> 'n db" where
  "getById oid userId isAdmin d =
     (case (if \<not> isAdmin then order_findFirst d oid userId else orders d oid) of
        None \<Rightarrow> (Inl (AppError ''Pedido nao encontrado'' 404), d)
      | Some ord \<Rightarrow>
          (Inr (ord\<lparr>o_statusHistory := order_by_desc sh_changedAt (o_statusHistory ord)\<rparr>), d))"

section \<open>CartService\<close>

text \<open>What \<^verbatim>\<open>getCart\<close> returns: the cart row, its items with their products, and the totals.\<close>

record 'n cart_view =
  cv_id :: string
  cv_userId :: string
  cv_items :: "('n cart_item \<times> 'n product) list"
  cv_total :: 'n
  cv_itemCount :: 'n

text \<open>
  \<open>newCartId\<close> is the identifier the store gives the cart when \<^verbatim>\<open>getCart\<close> has to create
  it. The items of a cart that already exists are read newest first; those of the cart just
  created are read through the same relation, in table order.
\<close>

definition getCart ::
  "string \<Rightarrow> string \<Rightarrow> 'n::{zero,plus,times} db \<Rightarrow> (error + 'n cart_view) \<times> 'n db" where
  "getCart newCartId userId d =
     (let (c, rows, d1) =
            (case carts d userId of
               Some c \<Rightarrow> (c, order_by_desc ci_createdAt (items_of_cart d (cart_id c)), d)
             | None \<Rightarrow>
                 let c = \<lparr>cart_id = newCartId\<rparr>;
                     d1 = d\<lparr>carts := (carts d)(userId \<mapsto> c)\<rparr>
                 in (c, items_of_cart d1 (cart_id c), d1))
      in case include_product (products d1) rows of
           Inl e \<Rightarrow> (Inl e, d1)
         | Inr items \<Rightarrow>
             let total = foldl (\<lambda>sum (item, p). sum + p_price p * ci_quantity item) 0 items
             in (Inr \<lparr>cv_id = cart_id c, cv_userId = userId, cv_items = items,
                      cv_total = total,
                      cv_itemCount = foldl (\<lambda>sum (item, p). sum + ci_quantity item) 0 items\<rparr>,
                 d1))"

text \<open>\<^verbatim>\<open>a || b\<close> on nullable strings: \<^verbatim>\<open>null\<close> and the empty string are falsy.\<close>

definition js_or :: "string option \<Rightarrow> string option \<Rightarrow> string option" where
  "js_or a b = (if a = None \<or> a = Some [] then b else a)"

text \<open>\<^verbatim>\<open>cartItem.findUnique({ where: { cartId_productId: { cartId, productId } } })\<close>\<close>

definition cartItem_findUnique :: "'n db \<Rightarrow> string \<Rightarrow> string \<Rightarrow> 'n cart_item option" where
  "cartItem_findUnique d cid pid =
     find (\<lambda>i. ci_cartId i = cid \<and> ci_productId i = pid) (cartItems d)"

text \<open>\<^verbatim>\<open>cartItem.findFirst({ where: { id, cartId } })\<close>\<close>

definition cartItem_findFirst :: "'n db \<Rightarrow> string \<Rightarrow> string \<Rightarrow> 'n cart_item option" where
  "cartItem_findFirst d itemId cid =
     find (\<lambda>i. ci_id i = itemId \<and> ci_cartId i = cid) (cartItems d)"

text \<open>\<^verbatim>\<open>cartItem.update({ where: { id }, data })\<close> and \<^verbatim>\<open>cartItem.delete({ where: { id } })\<close>\<close>

definition cartItem_update :: "string \<Rightarrow> ('n cart_item \<Rightarrow> 'n cart_item) \<Rightarrow> 'n db \<Rightarrow> 'n db" where
  "cartItem_update itemId upd d =
     d\<lparr>cartItems := map (\<lambda>i. if ci_id i = itemId then upd i else i) (cartItems d)\<rparr>"

definition cartItem_delete :: "string \<Rightarrow> 'n db \<Rightarrow> 'n db" where
  "cartItem_delete itemId d = d\<lparr>cartItems := filter (\<lambda>i. ci_id i \<noteq> itemId) (cartItems d)\<rparr>"

text \<open>
  \<^verbatim>\<open>addItem(userId, productId, quantity, notes)\<close>; \<open>newItemId\<close> is the identifier the store
  gives a newly created item. The defaults of \<^verbatim>\<open>quantity\<close> and \<^verbatim>\<open>notes\<close> are the caller's.
\<close>

definition addItem ::
  "string \<Rightarrow> string \<Rightarrow> nat \<Rightarrow> string \<Rightarrow> string \<Rightarrow> 'n \<Rightarrow> string option
    \<Rightarrow> 'n::{zero,plus,times} db \<Rightarrow> (error + 'n cart_view) \<times> 'n db" where
  "addItem newCartId newItemId now userId productId quantity notes d =
     (case products d productId of
        None \<Rightarrow> (Inl (AppError ''Produto nao encontrado'' 404), d)
      | Some product \<Rightarrow>
          if \<not> p_isAvailable product then (Inl (AppError ''Produto nao disponivel'' 400), d)
          else
            let (c, d1) =
                  (case carts d userId of
                     Some c \<Rightarrow> (c, d)
                   | None \<Rightarrow>
                       let c = \<lparr>cart_id = newCartId\<rparr>
                       in (c, d\<lparr>carts := (carts d)(userId \<mapsto> c)\<rparr>));
                d2 =
                  (case cartItem_findUnique d1 (cart_id c) productId of
                     Some existingItem \<Rightarrow>
                       cartItem_update (ci_id existingItem)
                         (\<lambda>i. i\<lparr>ci_quantity := ci_quantity existingItem + quantity,
                                 ci_notes := js_or notes (ci_notes existingItem)\<rparr>) d1
                   | None \<Rightarrow>
                       d1\<lparr>cartItems := cartItems d1 @
                            [\<lparr>ci_id = newItemId, ci_cartId = cart_id c,
                              ci_productId = productId, ci_quantity = quantity,
                              ci_notes = notes, ci_createdAt = now\<rparr>]\<rparr>)
            in getCart newCartId userId d2)"

text \<open>
  \<^verbatim>\<open>updateItem(userId, itemId, quantity, notes)\<close>: \<open>notes = None\<close> is \<^verbatim>\<open>undefined\<close> (leave the
  notes alone), \<open>Some None\<close> is \<^verbatim>\<open>null\<close>.
\<close>

definition updateItem ::
  "string \<Rightarrow> string \<Rightarrow> string \<Rightarrow> 'n \<Rightarrow> string option option
    \<Rightarrow> 'n::{zero,plus,times,ord} db \<Rightarrow> (error + 'n cart_view) \<times> 'n db" where
  "updateItem newCartId userId itemId quantity notes d =
     (case carts d userId of
        None \<Rightarrow> (Inl (AppError ''Carrinho nao encontrado'' 404), d)
      | Some c \<Rightarrow>
          (case cartItem_findFirst d itemId (cart_id c) of
             None \<Rightarrow> (Inl (AppError ''Item nao encontrado no carrinho'' 404), d)
           | Some item \<Rightarrow>
               let d1 =
                     (if quantity \<le> 0 then cartItem_delete itemId d
                      else cartItem_update itemId
                             (\<lambda>i. case notes of
                                     None \<Rightarrow> i\<lparr>ci_quantity := quantity\<rparr>
                                   | Some n \<Rightarrow> i\<lparr>ci_quantity := quantity, ci_notes := n\<rparr>) d)
               in getCart newCartId userId d1))"

definition removeItem ::
  "string \<Rightarrow> string \<Rightarrow> string \<Rightarrow> 'n::{zero,plus,times} db \<Rightarrow> (error + 'n cart_view) \<times> 'n db" where
  "removeItem newCartId userId itemId d =
     (case carts d userId of
        None \<Rightarrow> (Inl (AppError ''Carrinho nao encontrado'' 404), d)
      | Some c \<Rightarrow>
          (case cartItem_findFirst d itemId (cart_id c) of
             None \<Rightarrow> (Inl (AppError ''Item nao encontrado no carrinho'' 404), d)
           | Some item \<Rightarrow> getCart newCartId userId (cartItem_delete itemId d)))"

definition clearCart ::
  "string \<Rightarrow> string \<Rightarrow> 'n::{zero,plus,times} db \<Rightarrow> (error + 'n cart_view) \<times> 'n db" where
  "clearCart newCartId userId d =
     (case carts d userId of
        None \<Rightarrow> (Inl (AppError ''Carrinho nao encontrado'' 404), d)
      | Some c \<Rightarrow>
          getCart newCartId userId (snd (cartItem_deleteMany NoFault (cart_id c) d)))"

section \<open>Sequences of service calls\<close>

text \<open>
  Requests are served one after the other against the store. A call is recorded with its
  arguments and the environment's inputs; running it yields the order number it minted,
  if it was a successful \<^verbatim>\<open>createFromCart\<close>, and the store it leaves.
\<close>

datatype 'n call =
    CreateFromCart fault string nat string "string option"
  | Cancel nat string string
  | UpdateStatus nat string order_status string "string option"
  | GetById string string bool
  | GetCart string string
  | AddItem string string nat string string 'n "string option"
  | UpdateItem string string string 'n "string option option"
  | RemoveItem string string string
  | ClearCart string string

fun exec :: "'n::{zero,plus,times,ord} call \<Rightarrow> 'n db \<Rightarrow> int list \<times> 'n db" where
  "exec (CreateFromCart f newId now userId notes) d =
     (case createFromCart f newId now userId notes d of
        (Inl e, d') \<Rightarrow> ([], d')
      | (Inr ord, d') \<Rightarrow> ([o_orderNumber ord], d'))"
| "exec (Cancel now oid userId) d = ([], snd (cancel now oid userId d))"
| "exec (UpdateStatus now oid newStatus adminId notes) d =
     ([], snd (updateStatus now oid newStatus adminId notes d))"
| "exec (GetById oid userId isAdmin) d = ([], snd (getById oid userId isAdmin d))"
| "exec (GetCart newCartId userId) d = ([], snd (getCart newCartId userId d))"
| "exec (AddItem newCartId newItemId now userId productId quantity notes) d =
     ([], snd (addItem newCartId newItemId now userId productId quantity notes d))"
| "exec (UpdateItem newCartId userId itemId quantity notes) d =
     ([], snd (updateItem newCartId userId itemId quantity notes d))"
| "exec (RemoveItem newCartId userId itemId) d = ([], snd (removeItem newCartId userId itemId d))"
| "exec (ClearCart newCartId userId) d = ([], snd (clearCart newCartId userId d))"

fun run :: "'n::{zero,plus,times,ord} call list \<Rightarrow> 'n db \<Rightarrow> int list \<times> 'n db" where
  "run [] d = ([], d)"
| "run (c # cs) d =
     (case exec c d of
        (ns, d1) \<Rightarrow> (case run cs d1 of (ms, d2) \<Rightarrow> (ns @ ms, d2)))"

text \<open>The value of the order counter; a missing row counts as zero.\<close>

definition counter_value :: "'n db \<Rightarrow> int" where
  "counter_value d = (case counters d ''order_counter'' of None \<Rightarrow> 0 | Some v \<Rightarrow> v)"

text \<open>At most one cart item per (cart, product) pair.\<close>

definition cart_inv :: "'n db \<Rightarrow> bool" where
  "cart_inv d = distinct (map (\<lambda>i. (ci_cartId i, ci_productId i)) (cartItems d))"

section \<open>Example stores\<close>

text \<open>
  A store with two customers: \<open>u1\<close> has a cart of two available products, \<open>u2\<close> a cart
  with a product that is no longer available.
\<close>

definition example_db :: "int db" where
  "example_db =
     \<lparr>products =
        [''pA'' \<mapsto> \<lparr>p_name = ''Cafe'', p_price = 5, p_isAvailable = True\<rparr>,
         ''pB'' \<mapsto> \<lparr>p_name = ''Pao'', p_price = 3, p_isAvailable = True\<rparr>,
         ''pC'' \<mapsto> \<lparr>p_name = ''Suco'', p_price = 4, p_isAvailable = False\<rparr>],
      carts = [''u1'' \<mapsto> \<lparr>cart_id = ''c1''\<rparr>, ''u2'' \<mapsto> \<lparr>cart_id = ''c2''\<rparr>],
      cartItems =
        [\<lparr>ci_id = ''i1'', ci_cartId = ''c1'', ci_productId = ''pA'', ci_quantity = 2,
          ci_notes = None, ci_createdAt = 11\<rparr>,
         \<lparr>ci_id = ''i2'', ci_cartId = ''c1'', ci_productId = ''pB'', ci_quantity = 1,
          ci_notes = None, ci_createdAt = 12\<rparr>,
         \<lparr>ci_id = ''i3'', ci_cartId = ''c2'', ci_productId = ''pC'', ci_quantity = 1,
          ci_notes = None, ci_createdAt = 13\<rparr>],
      orders = Map.empty,
      counters = [''order_counter'' \<mapsto> 0]\<rparr>"

text \<open>The same store after two orders: \<open>o1\<close> of \<open>u1\<close> is pending, \<open>o2\<close> of \<open>u2\<close> is being prepared.\<close>

definition example_orders :: "int db" where
  "example_orders =
     example_db
       \<lparr>orders :=
          [''o1'' \<mapsto>
             \<lparr>o_id = ''o1'', o_orderNumber = 1, o_userId = ''u1'', o_totalAmount = 13,
              o_notes = None, o_status = PENDENTE,
              o_items =
                [\<lparr>oi_productId = ''pA'', oi_productName = ''Cafe'', oi_quantity = 2,
                  oi_unitPrice = 5, oi_totalPrice = 10, oi_notes = None\<rparr>,
                 \<lparr>oi_productId = ''pB'', oi_productName = ''Pao'', oi_quantity = 1,
                  oi_unitPrice = 3, oi_totalPrice = 3, oi_notes = None\<rparr>],
              o_statusHistory =
                [\<lparr>sh_status = PENDENTE, sh_changedBy = None,
                  sh_notes = Some ''Pedido criado'', sh_changedAt = 5\<rparr>],
              o_preparedAt = None, o_readyAt = None, o_deliveredAt = None,
              o_cancelledAt = None\<rparr>,
           ''o2'' \<mapsto>
             \<lparr>o_id = ''o2'', o_orderNumber = 2, o_userId = ''u2'', o_totalAmount = 4,
              o_notes = None, o_status = EM_PREPARO,
              o_items =
                [\<lparr>oi_productId = ''pC'', oi_productName = ''Suco'', oi_quantity = 1,
                  oi_unitPrice = 4, oi_totalPrice = 4, oi_notes = None\<rparr>],
              o_statusHistory =
                [\<lparr>sh_status = PENDENTE, sh_changedBy = None,
                  sh_notes = Some ''Pedido criado'', sh_changedAt = 6\<rparr>,
                 \<lparr>sh_status = EM_PREPARO, sh_changedBy = Some ''admin'',
                  sh_notes = None, sh_changedAt = 8\<rparr>],
              o_preparedAt = Some 8, o_readyAt = None, o_deliveredAt = None,
              o_cancelledAt = None\<rparr>],
        counters := [''order_counter'' \<mapsto> 2]\<rparr>"

text \<open>A sequence of calls with two successful and two failed order creations.\<close>

definition example_calls :: "int call list" where
  "example_calls =
     [CreateFromCart NoFault ''o1'' 7 ''u1'' None,
      CreateFromCart NoFault ''o2'' 8 ''u2'' None,
      AddItem ''c9'' ''i9'' 9 ''u1'' ''pB'' 2 None,
      Cancel 10 ''o1'' ''u1'',
      CreateFromCart FailCartPurge ''o3'' 11 ''u1'' None,
      CreateFromCart NoFault ''o3'' 12 ''u1'' (Some ''sem acucar'')]"

section \<open>Facts about the primitives\<close>

lemma prepare_items_eq:
  "prepare_items t items =
     (foldl (+) t (map (\<lambda>(i, p). p_price p * ci_quantity i) items),
      map (\<lambda>(i, p). \<lparr>oi_productId = ci_productId i, oi_productName = p_name p,
                     oi_quantity = ci_quantity i, oi_unitPrice = p_price p,
                     oi_totalPrice = p_price p * ci_quantity i, oi_notes = ci_notes i\<rparr>) items)"
  by (induction items arbitrary: t) (auto simp: Let_def)

lemma include_product_total:
  "\<forall>i \<in> set rows. ps (ci_productId i) \<noteq> None \<Longrightarrow>
   include_product ps rows = Inr (map (\<lambda>i. (i, the (ps (ci_productId i)))) rows)"
  by (induction rows) auto

lemma include_product_fst:
  "include_product ps rows = Inr items \<Longrightarrow> map fst items = rows"
  by (induction rows arbitrary: items) (auto split: option.splits sum.splits)

lemma include_product_Inl:
  "include_product ps rows = Inl e \<Longrightarrow> e = StoreError"
  by (induction rows) (auto split: option.splits sum.splits)

lemma check_available_None:
  "check_available items = None \<longleftrightarrow> (\<forall>x \<in> set items. p_isAvailable (snd x))"
  by (induction items rule: check_available.induct) auto

lemma create_tx_NoFault:
  "orders d newId = None \<Longrightarrow>
   create_tx NoFault newId now userId notes tot ois cid d =
     (let v = counter_value d + 1;
          ord = \<lparr>o_id = newId, o_orderNumber = v, o_userId = userId,
                   o_totalAmount = tot, o_notes = notes, o_status = PENDENTE,
                   o_items = ois,
                   o_statusHistory =
                     [\<lparr>sh_status = PENDENTE, sh_changedBy = None,
                       sh_notes = Some ''Pedido criado'', sh_changedAt = now\<rparr>],
                   o_preparedAt = None, o_readyAt = None, o_deliveredAt = None,
                   o_cancelledAt = None\<rparr>
      in (Inr ord, d\<lparr>counters := (counters d)(''order_counter'' \<mapsto> v),
                     orders := (orders d)(newId \<mapsto> ord),
                     cartItems := filter (\<lambda>i. ci_cartId i \<noteq> cid) (cartItems d)\<rparr>))"
  by (simp add: create_tx_def counter_upsert_def order_create_def cartItem_deleteMany_def
      counter_value_def Let_def split: option.splits)

lemma order_by_desc_sorted:
  "sorted_wrt (\<lambda>a b. key b \<le> key a) (order_by_desc key xs)"
proof -
  have "sorted (map key (sort_key key xs))" by (rule sorted_sort_key)
  then have "sorted_wrt (\<lambda>a b. key a \<le> key b) (sort_key key xs)"
    by (simp add: sorted_wrt_map)
  then show ?thesis
    by (simp add: order_by_desc_def sorted_wrt_rev)
qed

lemma order_by_desc_mset: "mset (order_by_desc key xs) = mset xs"
  by (simp add: order_by_desc_def)

lemma check_available_joined:
  "check_available (map (\<lambda>i. (i, the (ps (ci_productId i)))) rows) =
     map_option
       (\<lambda>i. AppError (''Produto '' @ [CHR 0x22] @ p_name (the (ps (ci_productId i)))
                        @ [CHR 0x22] @ '' nao esta mais disponivel'') 400)
       (find (\<lambda>j. \<not> p_isAvailable (the (ps (ci_productId j)))) rows)"
  by (induction rows) auto

lemma create_tx_fault:
  "f \<noteq> NoFault \<or> orders d newId \<noteq> None \<Longrightarrow>
   \<exists>d1. create_tx f newId now userId notes tot ois cid d = (Inl StoreError, d1)"
  by (cases f)
     (auto simp: create_tx_def counter_upsert_def order_create_def cartItem_deleteMany_def
        Let_def split: option.splits)

lemma create_tx_Inr:
  "create_tx f newId now userId notes tot ois cid d = (Inr ord, d') \<Longrightarrow>
   f = NoFault \<and> orders d newId = None"
  using create_tx_fault [of f d newId now userId "notes" tot ois cid]
  by (cases "f = NoFault"; cases "orders d newId") auto

lemma transaction_Inl: "transaction body d = (Inl e, d') \<Longrightarrow> d' = d"
  by (auto simp: transaction_def split: prod.splits sum.splits)

lemma createFromCart_Inl:
  "createFromCart f newId now userId notes d = (Inl e, d') \<Longrightarrow> d' = d"
  by (auto simp: createFromCart_def Let_def
      split: option.splits sum.splits if_splits prod.splits dest: transaction_Inl)

lemma createFromCart_Inr:
  assumes "createFromCart f newId now userId notes d = (Inr ord, d')"
  shows "f = NoFault \<and> orders d newId = None \<and>
         (\<exists>c items. carts d userId = Some c \<and>
            include_product (products d) (items_of_cart d (cart_id c)) = Inr items \<and>
            items \<noteq> [] \<and> check_available items = None \<and>
            create_tx NoFault newId now userId notes (fst (prepare_items 0 items))
              (snd (prepare_items 0 items)) (cart_id c) d = (Inr ord, d'))"
proof -
  from assms obtain c items where c: "carts d userId = Some c"
    and inc: "include_product (products d) (items_of_cart d (cart_id c)) = Inr items"
    and ne: "items \<noteq> []" and chk: "check_available items = None"
    and tx: "transaction (create_tx f newId now userId notes (fst (prepare_items 0 items))
              (snd (prepare_items 0 items)) (cart_id c)) d = (Inr ord, d')"
    by (auto simp: createFromCart_def Let_def
        split: option.splits sum.splits if_splits prod.splits)
  from tx have body: "create_tx f newId now userId notes (fst (prepare_items 0 items))
              (snd (prepare_items 0 items)) (cart_id c) d = (Inr ord, d')"
    by (auto simp: transaction_def split: prod.splits sum.splits)
  have ok: "f = NoFault \<and> orders d newId = None"
    using body by (rule create_tx_Inr)
  with c inc ne chk body show ?thesis by auto
qed

lemma create_tx_counter_advanced:
  "f \<in> {FailOrderInsert, FailOrderItemsInsert, FailHistoryInsert, FailCartPurge} \<Longrightarrow>
   \<exists>d1. create_tx f newId now userId notes tot ois cid d = (Inl StoreError, d1) \<and>
        counters d1 ''order_counter'' = Some (counter_value d + 1)"
  by (auto simp: create_tx_def counter_upsert_def order_create_def cartItem_deleteMany_def
        counter_value_def Let_def split: option.splits)

lemma getCart_tables:
  "counters (snd (getCart newCartId userId d)) = counters d \<and>
   cartItems (snd (getCart newCartId userId d)) = cartItems d \<and>
   orders (snd (getCart newCartId userId d)) = orders d \<and>
   products (snd (getCart newCartId userId d)) = products d"
  by (auto simp: getCart_def Let_def split: option.splits sum.splits prod.splits)

lemma cancel_counters: "counters (snd (cancel now oid userId d)) = counters d"
  by (auto simp: cancel_def order_update_def Let_def split: option.splits)

lemma updateStatus_counters:
  "counters (snd (updateStatus now oid newStatus adminId notes d)) = counters d"
  by (auto simp: updateStatus_def order_update_def Let_def split: option.splits)

lemma getById_store: "snd (getById oid userId isAdmin d) = d"
  by (auto simp: getById_def split: option.splits)

lemma addItem_counters:
  "counters (snd (addItem newCartId newItemId now userId productId quantity notes d)) = counters d"
  by (auto simp: addItem_def getCart_tables cartItem_update_def Let_def
      split: option.splits prod.splits)

lemma updateItem_counters:
  "counters (snd (updateItem newCartId userId itemId quantity notes d)) = counters d"
  by (auto simp: updateItem_def getCart_tables cartItem_update_def cartItem_delete_def Let_def
      split: option.splits)

lemma removeItem_counters:
  "counters (snd (removeItem newCartId userId itemId d)) = counters d"
  by (auto simp: removeItem_def getCart_tables cartItem_delete_def split: option.splits)

lemma clearCart_counters:
  "counters (snd (clearCart newCartId userId d)) = counters d"
  by (auto simp: clearCart_def getCart_tables cartItem_deleteMany_def split: option.splits)

lemma createFromCart_number:
  assumes "createFromCart f newId now userId notes d = (Inr ord, d')"
  shows "o_orderNumber ord = counter_value d + 1 \<and>
         counters d' = (counters d)(''order_counter'' \<mapsto> counter_value d + 1)"
proof -
  from createFromCart_Inr [OF assms] obtain c :: cart and items where
    fresh: "orders d newId = None"
    and body: "create_tx NoFault newId now userId notes (fst (prepare_items 0 items))
              (snd (prepare_items 0 items)) (cart_id c) d = (Inr ord, d')"
    by blast
  from body show ?thesis
    by (auto simp: create_tx_NoFault [OF fresh] Let_def)
qed

lemma exec_counter:
  "exec c d = (ns, d') \<Longrightarrow>
     (ns = [] \<and> counter_value d' = counter_value d) \<or>
     (ns = [counter_value d + 1] \<and> counter_value d' = counter_value d + 1)"
proof (cases c)
  case (CreateFromCart f newId now userId nts)
  assume run: "exec c d = (ns, d')"
  obtain r d1 where r: "createFromCart f newId now userId nts d = (r, d1)"
    by (cases "createFromCart f newId now userId nts d")
  show ?thesis
  proof (cases r)
    case (Inl e)
    with r run CreateFromCart createFromCart_Inl [of f newId now userId nts d e d1]
    show ?thesis by auto
  next
    case (Inr ord)
    with r run CreateFromCart createFromCart_number [of f newId now userId nts d ord d1]
    show ?thesis by (auto simp: counter_value_def)
  qed
qed (auto simp: counter_value_def cancel_counters updateStatus_counters getById_store
       getCart_tables addItem_counters updateItem_counters removeItem_counters clearCart_counters)

lemma run_counter:
  "fst (run cs d) = [counter_value d + 1 .. counter_value d + int (length (fst (run cs d)))] \<and>
   counter_value (snd (run cs d)) = counter_value d + int (length (fst (run cs d)))"
proof (induction cs arbitrary: d)
  case Nil
  then show ?case by simp
next
  case (Cons c cs)
  obtain ns d1 where e: "exec c d = (ns, d1)" by (cases "exec c d")
  obtain ms d2 where r: "run cs d1 = (ms, d2)" by (cases "run cs d1")
  from Cons.IH [of d1] r
  have ih: "ms = [counter_value d1 + 1 .. counter_value d1 + int (length ms)]"
    "counter_value d2 = counter_value d1 + int (length ms)"
    by auto
  from exec_counter [OF e] show ?case
  proof
    assume "ns = [] \<and> counter_value d1 = counter_value d"
    with e r ih show ?thesis by simp
  next
    assume h: "ns = [counter_value d + 1] \<and> counter_value d1 = counter_value d + 1"
    have "[counter_value d + 1 .. counter_value d + 1 + int (length ms)] =
          (counter_value d + 1) # [counter_value d + 1 + 1 .. counter_value d + 1 + int (length ms)]"
      by (rule upto_rec1) simp
    with h e r ih show ?thesis by (simp add: add.assoc)
  qed
qed


lemma example_run: "fst (run example_calls example_db) = [1, 2]"
  by (simp add: example_calls_def example_db_def createFromCart_def items_of_cart_def
      transaction_def create_tx_def counter_upsert_def order_create_def cartItem_deleteMany_def
      addItem_def getCart_def cartItem_findUnique_def cartItem_update_def js_or_def
      cancel_def order_findFirst_def order_update_def order_by_desc_def Let_def)


lemma cart_inv_cong: "cartItems d' = cartItems d \<Longrightarrow> cart_inv d' = cart_inv d"
  by (simp add: cart_inv_def)

lemma cart_inv_filter:
  "cart_inv d \<Longrightarrow> cartItems d' = filter P (cartItems d) \<Longrightarrow> cart_inv d'"
  by (simp add: cart_inv_def distinct_map_filter)

lemma cart_inv_update:
  assumes "\<And>i. ci_cartId (upd i) = ci_cartId i \<and> ci_productId (upd i) = ci_productId i"
  shows "cart_inv (cartItem_update itemId upd d) = cart_inv d"
proof -
  have "(\<lambda>i. (ci_cartId i, ci_productId i)) \<circ> (\<lambda>i. if ci_id i = itemId then upd i else i)
        = (\<lambda>i. (ci_cartId i, ci_productId i))"
    using assms by (auto simp: fun_eq_iff)
  then show ?thesis
    by (simp add: cart_inv_def cartItem_update_def)
qed

lemma find_None_key:
  "find (\<lambda>i. ci_cartId i = cid \<and> ci_productId i = pid) xs = None \<Longrightarrow>
   (cid, pid) \<notin> set (map (\<lambda>i. (ci_cartId i, ci_productId i)) xs)"
  by (auto simp: find_None_iff)

lemma getCart_inv: "cart_inv (snd (getCart newCartId userId d)) = cart_inv d"
  by (rule cart_inv_cong) (simp add: getCart_tables)

lemma addItem_cartItems:
  assumes "products d productId = Some p" and "p_isAvailable p"
  shows "cartItems (snd (addItem newCartId newItemId now userId productId quantity notes d)) =
     (let cid = (case carts d userId of Some c \<Rightarrow> cart_id c | None \<Rightarrow> newCartId)
      in case cartItem_findUnique d cid productId of
           Some e \<Rightarrow>
             map (\<lambda>i. if ci_id i = ci_id e
                       then i\<lparr>ci_quantity := ci_quantity e + quantity,
                              ci_notes := js_or notes (ci_notes e)\<rparr>
                       else i) (cartItems d)
         | None \<Rightarrow>
             cartItems d @
               [\<lparr>ci_id = newItemId, ci_cartId = cid, ci_productId = productId,
                 ci_quantity = quantity, ci_notes = notes, ci_createdAt = now\<rparr>])"
  using assms
  by (auto simp: addItem_def getCart_tables cartItem_update_def cartItem_findUnique_def Let_def
      split: option.splits)

lemma addItem_inv:
  assumes "cart_inv d"
  shows "cart_inv (snd (addItem newCartId newItemId now userId productId quantity notes d))"
proof (cases "products d productId")
  case None
  with assms show ?thesis by (simp add: addItem_def)
next
  case (Some p)
  show ?thesis
  proof (cases "p_isAvailable p")
    case False
    with Some assms show ?thesis by (simp add: addItem_def)
  next
    case True
    let ?cid = "case carts d userId of Some c \<Rightarrow> cart_id c | None \<Rightarrow> newCartId"
    show ?thesis
    proof (cases "cartItem_findUnique d ?cid productId")
      case None
      then have "(?cid, productId) \<notin> set (map (\<lambda>i. (ci_cartId i, ci_productId i)) (cartItems d))"
        unfolding cartItem_findUnique_def by (rule find_None_key)
      with assms None show ?thesis
        by (simp add: cart_inv_def addItem_cartItems [OF Some True] Let_def)
    next
      case (Some e)
      have "cart_inv (cartItem_update (ci_id e)
              (\<lambda>i. i\<lparr>ci_quantity := ci_quantity e + quantity,
                       ci_notes := js_or notes (ci_notes e)\<rparr>) d)"
        using assms by (simp add: cart_inv_update)
      with Some show ?thesis
        by (simp add: cart_inv_def addItem_cartItems [OF \<open>products d productId = Some p\<close> True]
            Let_def cartItem_update_def)
    qed
  qed
qed

lemma updateItem_inv:
  "cart_inv d \<Longrightarrow> cart_inv (snd (updateItem newCartId userId itemId quantity notes d))"
  by (auto simp: updateItem_def getCart_inv cart_inv_update cartItem_delete_def
      split: option.splits intro: cart_inv_filter)

lemma removeItem_inv:
  "cart_inv d \<Longrightarrow> cart_inv (snd (removeItem newCartId userId itemId d))"
  by (auto simp: removeItem_def getCart_inv cartItem_delete_def
      split: option.splits intro: cart_inv_filter)

lemma clearCart_inv:
  "cart_inv d \<Longrightarrow> cart_inv (snd (clearCart newCartId userId d))"
  by (auto simp: clearCart_def getCart_inv cartItem_deleteMany_def
      split: option.splits intro: cart_inv_filter)

lemma cancel_cartItems: "cartItems (snd (cancel now oid userId d)) = cartItems d"
  by (auto simp: cancel_def order_update_def Let_def split: option.splits)

lemma updateStatus_cartItems:
  "cartItems (snd (updateStatus now oid newStatus adminId notes d)) = cartItems d"
  by (auto simp: updateStatus_def order_update_def Let_def split: option.splits)

lemma createFromCart_inv:
  assumes "cart_inv d"
  shows "cart_inv (snd (createFromCart f newId now userId notes d))"
proof -
  obtain r d' where run: "createFromCart f newId now userId notes d = (r, d')"
    by (cases "createFromCart f newId now userId notes d")
  show ?thesis
  proof (cases r)
    case (Inl e)
    with run createFromCart_Inl [of f newId now userId "notes" d e d'] assms
    show ?thesis by simp
  next
    case (Inr ord)
    with run have ok: "createFromCart f newId now userId notes d = (Inr ord, d')" by simp
    from createFromCart_Inr [OF ok] obtain c :: cart and items where
      fresh: "orders d newId = None"
      and body: "create_tx NoFault newId now userId notes (fst (prepare_items 0 items))
              (snd (prepare_items 0 items)) (cart_id c) d = (Inr ord, d')"
      by blast
    from body have "cartItems d' = filter (\<lambda>i. ci_cartId i \<noteq> cart_id c) (cartItems d)"
      by (auto simp: create_tx_NoFault [OF fresh] Let_def)
    with assms have "cart_inv d'" by (rule cart_inv_filter)
    with run show ?thesis by simp
  qed
qed

lemma exec_inv: "cart_inv d \<Longrightarrow> cart_inv (snd (exec c d))"
proof (cases c)
  case (CreateFromCart f newId now userId nts)
  assume "cart_inv d"
  from createFromCart_inv [OF this, of f newId now userId nts] CreateFromCart
  show ?thesis by (auto split: prod.splits sum.splits)
qed (auto simp: cart_inv_cong [OF cancel_cartItems] cart_inv_cong [OF updateStatus_cartItems]
       getById_store getCart_inv addItem_inv updateItem_inv removeItem_inv clearCart_inv)

lemma filter_pair_unique:
  "distinct (map (\<lambda>i. (ci_cartId i, ci_productId i)) xs) \<Longrightarrow>
   find (\<lambda>i. ci_cartId i = cid \<and> ci_productId i = pid) xs = Some e \<Longrightarrow>
   filter (\<lambda>i. ci_cartId i = cid \<and> ci_productId i = pid) xs = [e]"
proof (induction xs)
  case Nil
  then show ?case by simp
next
  case (Cons x xs)
  show ?case
  proof (cases "ci_cartId x = cid \<and> ci_productId x = pid")
    case True
    with Cons.prems have "e = x" by simp
    moreover from True Cons.prems
    have "(cid, pid) \<notin> set (map (\<lambda>i. (ci_cartId i, ci_productId i)) xs)" by auto
    then have "filter (\<lambda>i. ci_cartId i = cid \<and> ci_productId i = pid) xs = []"
      by (auto simp: filter_empty_conv)
    ultimately show ?thesis using True by simp
  next
    case False
    with Cons show ?thesis by auto
  qed
qed

lemma find_Some_pair:
  "find (\<lambda>i. ci_cartId i = cid \<and> ci_productId i = pid) xs = Some e \<Longrightarrow>
   ci_cartId e = cid \<and> ci_productId e = pid"
  by (auto simp: find_Some_iff)

lemma foldl_pair_map:
  "foldl (\<lambda>sum (item, p). sum + g item p) a xs = foldl (+) a (map (\<lambda>(i, p). g i p) xs)"
  by (induction xs arbitrary: a) auto

lemma include_product_snd:
  "include_product ps rows = Inr items \<Longrightarrow> \<forall>(i, p) \<in> set items. ps (ci_productId i) = Some p"
  by (induction rows arbitrary: items) (auto split: option.splits sum.splits)

lemma items_of_cart_carts [simp]: "items_of_cart (d\<lparr>carts := cs\<rparr>) cid = items_of_cart d cid"
  by (simp add: items_of_cart_def)

lemma getCart_Some:
  "carts d userId = Some c \<Longrightarrow>
   getCart newCartId userId d =
     (case include_product (products d) (order_by_desc ci_createdAt (items_of_cart d (cart_id c))) of
        Inl e \<Rightarrow> (Inl e, d)
      | Inr items \<Rightarrow>
          (Inr \<lparr>cv_id = cart_id c, cv_userId = userId, cv_items = items,
                cv_total = foldl (+) 0 (map (\<lambda>(i, p). p_price p * ci_quantity i) items),
                cv_itemCount = foldl (+) 0 (map (\<lambda>(i, p). ci_quantity i) items)\<rparr>, d))"
  by (simp add: getCart_def Let_def foldl_pair_map split: sum.splits)

lemma getCart_None:
  "carts d userId = None \<Longrightarrow>
   getCart newCartId userId d =
     (case include_product (products d) (items_of_cart d newCartId) of
        Inl e \<Rightarrow> (Inl e, d\<lparr>carts := (carts d)(userId \<mapsto> \<lparr>cart_id = newCartId\<rparr>)\<rparr>)
      | Inr items \<Rightarrow>
          (Inr \<lparr>cv_id = newCartId, cv_userId = userId, cv_items = items,
                cv_total = foldl (+) 0 (map (\<lambda>(i, p). p_price p * ci_quantity i) items),
                cv_itemCount = foldl (+) 0 (map (\<lambda>(i, p). ci_quantity i) items)\<rparr>,
           d\<lparr>carts := (carts d)(userId \<mapsto> \<lparr>cart_id = newCartId\<rparr>)\<rparr>))"
  by (simp add: getCart_def Let_def foldl_pair_map split: sum.splits)

lemma getCart_Inr:
  assumes "getCart newCartId userId d = (Inr v, d')"
  shows "\<exists>rows. include_product (products d') rows = Inr (cv_items v) \<and>
           mset rows = mset (items_of_cart d' (cv_id v)) \<and>
           cv_total v = foldl (+) 0 (map (\<lambda>(i, p). p_price p * ci_quantity i) (cv_items v)) \<and>
           cv_itemCount v = foldl (+) 0 (map (\<lambda>(i, p). ci_quantity i) (cv_items v)) \<and>
           carts d' userId = Some \<lparr>cart_id = cv_id v\<rparr>"
proof (cases "carts d userId")
  case None
  show ?thesis
  proof (cases "include_product (products d) (items_of_cart d newCartId)")
    case (Inl e)
    with assms None show ?thesis by (simp add: getCart_None)
  next
    case (Inr items)
    with assms None have
      v: "v = \<lparr>cv_id = newCartId, cv_userId = userId, cv_items = items,
                cv_total = foldl (+) 0 (map (\<lambda>(i, p). p_price p * ci_quantity i) items),
                cv_itemCount = foldl (+) 0 (map (\<lambda>(i, p). ci_quantity i) items)\<rparr>"
      and d': "d' = d\<lparr>carts := (carts d)(userId \<mapsto> \<lparr>cart_id = newCartId\<rparr>)\<rparr>"
      by (simp_all add: getCart_None)
    show ?thesis
      by (rule exI [of _ "items_of_cart d newCartId"]) (simp add: v d' Inr)
  qed
next
  case (Some c)
  let ?rows = "order_by_desc ci_createdAt (items_of_cart d (cart_id c))"
  show ?thesis
  proof (cases "include_product (products d) ?rows")
    case (Inl e)
    with assms Some show ?thesis by (simp add: getCart_Some)
  next
    case (Inr items)
    with assms Some have
      v: "v = \<lparr>cv_id = cart_id c, cv_userId = userId, cv_items = items,
                cv_total = foldl (+) 0 (map (\<lambda>(i, p). p_price p * ci_quantity i) items),
                cv_itemCount = foldl (+) 0 (map (\<lambda>(i, p). ci_quantity i) items)\<rparr>"
      and d': "d' = d"
      by (simp_all add: getCart_Some)
    show ?thesis
      by (rule exI [of _ ?rows]) (simp add: v d' Inr Some order_by_desc_mset)
  qed
qed

lemma getCart_total:
  assumes fk: "\<forall>i \<in> set (cartItems d). products d (ci_productId i) \<noteq> None"
  shows "\<exists>v d'. getCart newCartId userId d = (Inr v, d')"
proof -
  have inc: "\<exists>items. include_product (products d) rows = Inr items"
    if "set rows \<subseteq> set (cartItems d)" for rows
  proof -
    from that fk have "\<forall>i \<in> set rows. products d (ci_productId i) \<noteq> None" by blast
    from include_product_total [OF this] show ?thesis by blast
  qed
  show ?thesis
  proof (cases "carts d userId")
    case None
    have "set (items_of_cart d newCartId) \<subseteq> set (cartItems d)"
      by (auto simp: items_of_cart_def)
    from inc [OF this] obtain items where
      "include_product (products d) (items_of_cart d newCartId) = Inr items" by blast
    with None show ?thesis by (simp add: getCart_None)
  next
    case (Some c)
    have "set (order_by_desc ci_createdAt (items_of_cart d (cart_id c))) \<subseteq> set (cartItems d)"
      by (auto simp: order_by_desc_def items_of_cart_def)
    from inc [OF this] obtain items where
      "include_product (products d) (order_by_desc ci_createdAt (items_of_cart d (cart_id c)))
         = Inr items" by blast
    with Some show ?thesis by (simp add: getCart_Some)
  qed
qed

section \<open>Claims\<close>

text \<open>
  C1. For a user whose cart exists, is not empty and holds only available products, and
  when the store accepts every write, \<^verbatim>\<open>createFromCart\<close> returns an order that is stored under
  the new identifier, whose \<^verbatim>\<open>totalAmount\<close> is the sum, from 0 and in cart order, of current
  price times quantity, whose items copy the current product name and price, whose history
  is the single entry (PENDENTE, no actor, note "Pedido criado"), and after which the cart
  is still there and has no items.
\<close>

theorem createFromCart_creates_order:
  fixes d :: "'n::{zero,plus,times} db"
  assumes cart: "carts d userId = Some c"
    and nonempty: "items_of_cart d (cart_id c) \<noteq> []"
    and avail: "\<forall>i \<in> set (items_of_cart d (cart_id c)).
                  \<exists>p. products d (ci_productId i) = Some p \<and> p_isAvailable p"
    and fresh: "orders d newId = None"
  shows "\<exists>ord d'.
           createFromCart NoFault newId now userId notes d = (Inr ord, d') \<and>
           orders d' newId = Some ord \<and>
           o_id ord = newId \<and> o_userId ord = userId \<and> o_status ord = PENDENTE \<and>
           o_totalAmount ord =
             foldl (+) 0
               (map (\<lambda>i. p_price (the (products d (ci_productId i))) * ci_quantity i)
                  (items_of_cart d (cart_id c))) \<and>
           o_items ord =
             map (\<lambda>i. \<lparr>oi_productId = ci_productId i,
                        oi_productName = p_name (the (products d (ci_productId i))),
                        oi_quantity = ci_quantity i,
                        oi_unitPrice = p_price (the (products d (ci_productId i))),
                        oi_totalPrice =
                          p_price (the (products d (ci_productId i))) * ci_quantity i,
                        oi_notes = ci_notes i\<rparr>)
               (items_of_cart d (cart_id c)) \<and>
           o_statusHistory ord =
             [\<lparr>sh_status = PENDENTE, sh_changedBy = None,
               sh_notes = Some ''Pedido criado'', sh_changedAt = now\<rparr>] \<and>
           carts d' userId = Some c \<and>
           items_of_cart d' (cart_id c) = []"
proof -
  let ?rows = "items_of_cart d (cart_id c)"
  let ?items = "map (\<lambda>i. (i, the (products d (ci_productId i)))) ?rows"
  have inc: "include_product (products d) ?rows = Inr ?items"
    using avail by (intro include_product_total) auto
  have len: "length ?items \<noteq> 0"
    using nonempty by simp
  have chk: "check_available ?items = None"
    unfolding check_available_None using avail by auto
  have run: "createFromCart NoFault newId now userId notes d =
      transaction
        (create_tx NoFault newId now userId notes (fst (prepare_items 0 ?items))
           (snd (prepare_items 0 ?items)) (cart_id c)) d"
    using len by (simp add: createFromCart_def cart inc chk split: prod.splits)
  show ?thesis
    unfolding run
    by (simp add: transaction_def create_tx_NoFault [OF fresh] Let_def prepare_items_eq
        items_of_cart_def comp_def cart)
qed

theorem createFromCart_creates_order_witness:
  "\<exists>ord d'. createFromCart NoFault ''o1'' 7 ''u1'' None example_db = (Inr ord, d') \<and>
      o_totalAmount ord = 13 \<and> length (o_items ord) = 2 \<and>
      length (o_statusHistory ord) = 1 \<and> items_of_cart d' ''c1'' = []"
  using createFromCart_creates_order [of example_db "''u1''" "\<lparr>cart_id = ''c1''\<rparr>" "''o1''" 7 None]
  by (auto simp: example_db_def items_of_cart_def)

text \<open>
  C2. For an order that exists, \<^verbatim>\<open>updateStatus\<close> succeeds exactly for the transitions of the
  table PENDENTE to EM_PREPARO or CANCELADO, EM_PREPARO to PRONTO or CANCELADO, PRONTO to
  ENTREGUE or CANCELADO (none from ENTREGUE or CANCELADO). Any other request, and so every
  request for the status the order already has, fails with the 400 error whose message
  names the current and the requested status, and leaves the store as it was: the status
  is unchanged and no history entry is added.
\<close>

theorem updateStatus_follows_table:
  assumes "orders d oid = Some ord"
  shows "((\<exists>r d'. updateStatus now oid newStatus adminId notes d = (Inr r, d')) \<longleftrightarrow>
            (o_status ord, newStatus) \<in>
              {(PENDENTE, EM_PREPARO), (PENDENTE, CANCELADO),
               (EM_PREPARO, PRONTO), (EM_PREPARO, CANCELADO),
               (PRONTO, ENTREGUE), (PRONTO, CANCELADO)}) \<and>
         ((o_status ord, newStatus) \<notin>
              {(PENDENTE, EM_PREPARO), (PENDENTE, CANCELADO),
               (EM_PREPARO, PRONTO), (EM_PREPARO, CANCELADO),
               (PRONTO, ENTREGUE), (PRONTO, CANCELADO)} \<longrightarrow>
            updateStatus now oid newStatus adminId notes d =
              (Inl (AppError (''Nao e possivel mudar de '' @ ORDER_STATUS (o_status ord)
                               @ '' para '' @ ORDER_STATUS newStatus) 400), d)) \<and>
         (newStatus = o_status ord \<longrightarrow>
            (\<exists>e. updateStatus now oid newStatus adminId notes d = (Inl e, d)))"
  using assms
  by (cases "o_status ord"; cases newStatus)
     (simp_all add: updateStatus_def order_update_def Let_def)

theorem updateStatus_follows_table_witness:
  "(\<exists>r d'. updateStatus 9 ''o1'' EM_PREPARO ''admin'' None example_orders = (Inr r, d')) \<and>
   updateStatus 9 ''o1'' ENTREGUE ''admin'' None example_orders =
     (Inl (AppError ''Nao e possivel mudar de PENDENTE para ENTREGUE'' 400), example_orders) \<and>
   (\<exists>e. updateStatus 9 ''o1'' PENDENTE ''admin'' None example_orders = (Inl e, example_orders))"
  using updateStatus_follows_table [of example_orders "''o1''" _ 9 EM_PREPARO "''admin''" None]
    updateStatus_follows_table [of example_orders "''o1''" _ 9 ENTREGUE "''admin''" None]
    updateStatus_follows_table [of example_orders "''o1''" _ 9 PENDENTE "''admin''" None]
  by (simp add: example_orders_def example_db_def)


text \<open>
  C6. \<^verbatim>\<open>cancel\<close> succeeds exactly when the order exists, belongs to the user and is PENDENTE.
  It then stores the order with status CANCELADO, \<^verbatim>\<open>cancelledAt\<close> set to the clock reading and
  one more history entry (CANCELADO, no actor, note "Cancelado pelo cliente"), every other
  order being untouched. An owned order in another status gives the 400 error "Apenas
  pedidos pendentes podem ser cancelados", a missing order or one of another user the 404
  error "Pedido nao encontrado"; in both cases the store is unchanged.
\<close>

theorem cancel_only_pending_owned:
  "((\<exists>r d'. cancel now oid userId d = (Inr r, d')) \<longleftrightarrow>
      (\<exists>ord. orders d oid = Some ord \<and> o_userId ord = userId \<and> o_status ord = PENDENTE)) \<and>
   (\<forall>ord. orders d oid = Some ord \<and> o_userId ord = userId \<and> o_status ord = PENDENTE \<longrightarrow>
      (\<exists>r d'. cancel now oid userId d = (Inr r, d') \<and>
         orders d' = (orders d)(oid \<mapsto> r) \<and>
         r = ord\<lparr>o_status := CANCELADO, o_cancelledAt := Some now,
                 o_statusHistory := o_statusHistory ord @
                   [\<lparr>sh_status = CANCELADO, sh_changedBy = None,
                     sh_notes = Some ''Cancelado pelo cliente'', sh_changedAt = now\<rparr>]\<rparr>)) \<and>
   (\<forall>ord. orders d oid = Some ord \<and> o_userId ord = userId \<and> o_status ord \<noteq> PENDENTE \<longrightarrow>
      cancel now oid userId d =
        (Inl (AppError ''Apenas pedidos pendentes podem ser cancelados'' 400), d)) \<and>
   (orders d oid = None \<or> (\<exists>ord. orders d oid = Some ord \<and> o_userId ord \<noteq> userId) \<longrightarrow>
      cancel now oid userId d = (Inl (AppError ''Pedido nao encontrado'' 404), d))"
  by (auto simp: cancel_def order_findFirst_def order_update_def Let_def
      split: option.splits if_splits)

theorem cancel_only_pending_owned_witness:
  "(\<exists>r d'. cancel 9 ''o1'' ''u1'' example_orders = (Inr r, d') \<and> o_status r = CANCELADO \<and>
      o_cancelledAt r = Some 9 \<and> length (o_statusHistory r) = 2) \<and>
   cancel 9 ''o2'' ''u2'' example_orders =
     (Inl (AppError ''Apenas pedidos pendentes podem ser cancelados'' 400), example_orders) \<and>
   cancel 9 ''o1'' ''u2'' example_orders =
     (Inl (AppError ''Pedido nao encontrado'' 404), example_orders) \<and>
   cancel 9 ''o9'' ''u1'' example_orders =
     (Inl (AppError ''Pedido nao encontrado'' 404), example_orders)"
  using cancel_only_pending_owned [of 9 "''o1''" "''u1''" example_orders]
    cancel_only_pending_owned [of 9 "''o2''" "''u2''" example_orders]
    cancel_only_pending_owned [of 9 "''o1''" "''u2''" example_orders]
    cancel_only_pending_owned [of 9 "''o9''" "''u1''" example_orders]
  by (auto simp: example_orders_def example_db_def)

text \<open>
  C7. When \<^verbatim>\<open>updateStatus\<close> accepts a transition, the stored order gets the new status and
  its history is the former history followed by exactly one entry holding the new status,
  the admin's identifier, the notes and the clock reading; the earlier entries and every
  other order are as before. The timestamp field of the new status is stamped
  (\<^verbatim>\<open>preparedAt\<close>, \<^verbatim>\<open>readyAt\<close>, \<^verbatim>\<open>deliveredAt\<close>, \<^verbatim>\<open>cancelledAt\<close>). The order returned, which is
  also what \<^verbatim>\<open>getById\<close> returns afterwards to an admin or to the owner, carries the same
  history entries, newest first.
\<close>

theorem updateStatus_records_transition:
  assumes "updateStatus now oid newStatus adminId notes d = (Inr r, d')"
  shows "\<exists>ord ord'.
           orders d oid = Some ord \<and>
           orders d' = (orders d)(oid \<mapsto> ord') \<and>
           o_status ord' = newStatus \<and>
           o_statusHistory ord' = o_statusHistory ord @
             [\<lparr>sh_status = newStatus, sh_changedBy = Some adminId,
               sh_notes = notes, sh_changedAt = now\<rparr>] \<and>
           (newStatus = EM_PREPARO \<longrightarrow> o_preparedAt ord' = Some now) \<and>
           (newStatus = PRONTO \<longrightarrow> o_readyAt ord' = Some now) \<and>
           (newStatus = ENTREGUE \<longrightarrow> o_deliveredAt ord' = Some now) \<and>
           (newStatus = CANCELADO \<longrightarrow> o_cancelledAt ord' = Some now) \<and>
           r = ord'\<lparr>o_statusHistory := order_by_desc sh_changedAt (o_statusHistory ord')\<rparr> \<and>
           sorted_wrt (\<lambda>a b. sh_changedAt b \<le> sh_changedAt a) (o_statusHistory r) \<and>
           mset (o_statusHistory r) = mset (o_statusHistory ord') \<and>
           (\<forall>userId isAdmin. isAdmin \<or> o_userId ord = userId \<longrightarrow>
              getById oid userId isAdmin d' = (Inr r, d'))"
proof -
  from assms obtain ord where ord: "orders d oid = Some ord"
    by (auto simp: updateStatus_def split: option.splits)
  from assms ord have ok: "List.member (VALID_STATUS_TRANSITIONS (o_status ord)) newStatus"
    by (auto simp: updateStatus_def Let_def split: if_splits)
  show ?thesis
    using assms ord ok
    by (auto simp: updateStatus_def order_update_def Let_def getById_def order_findFirst_def
        order_by_desc_sorted order_by_desc_mset)
qed

theorem updateStatus_records_transition_witness:
  "\<exists>r d'. updateStatus 9 ''o2'' PRONTO ''admin'' (Some ''ok'') example_orders = (Inr r, d') \<and>
     o_readyAt r = Some 9 \<and>
     map sh_status (o_statusHistory r) = [PRONTO, EM_PREPARO, PENDENTE] \<and>
     getById ''o2'' ''u2'' False d' = (Inr r, d')"
proof -
  obtain r d' where run:
    "updateStatus 9 ''o2'' PRONTO ''admin'' (Some ''ok'') example_orders = (Inr r, d')"
    by (simp add: updateStatus_def order_update_def Let_def example_orders_def example_db_def)
  from updateStatus_records_transition [OF run]
  show ?thesis
    using run
    by (auto simp: example_orders_def example_db_def order_by_desc_def)
qed

text \<open>
  C8. \<^verbatim>\<open>getById\<close> returns the stored order, with its items and its history newest first,
  to its owner and to an admin. A requester who is not an admin and asks for an order of
  another user gets the 404 error "Pedido nao encontrado", which is exactly the outcome of
  asking, in any store, for an order that does not exist; neither run changes its store.
\<close>

theorem getById_no_existence_leak:
  "(\<forall>ord. orders d oid = Some ord \<and> (isAdmin \<or> o_userId ord = userId) \<longrightarrow>
      getById oid userId isAdmin d =
        (Inr (ord\<lparr>o_statusHistory := order_by_desc sh_changedAt (o_statusHistory ord)\<rparr>), d)) \<and>
   (\<forall>ord. orders d oid = Some ord \<and> o_userId ord \<noteq> userId \<and> orders d2 oid2 = None \<longrightarrow>
      getById oid userId False d = (Inl (AppError ''Pedido nao encontrado'' 404), d) \<and>
      getById oid2 userId False d2 = (Inl (AppError ''Pedido nao encontrado'' 404), d2) \<and>
      fst (getById oid userId False d) = fst (getById oid2 userId False d2))"
  by (auto simp: getById_def order_findFirst_def)

theorem getById_no_existence_leak_witness:
  "(\<exists>r. getById ''o1'' ''u1'' False example_orders = (Inr r, example_orders) \<and> o_totalAmount r = 13) \<and>
   (\<exists>r. getById ''o1'' ''zz'' True example_orders = (Inr r, example_orders) \<and> o_totalAmount r = 13) \<and>
   fst (getById ''o1'' ''u2'' False example_orders) = fst (getById ''o9'' ''u2'' False example_db) \<and>
   getById ''o1'' ''u2'' False example_orders =
     (Inl (AppError ''Pedido nao encontrado'' 404), example_orders)"
  using getById_no_existence_leak
      [where d = example_orders and oid = "''o1''" and isAdmin = False and userId = "''u1''"]
    getById_no_existence_leak
      [where d = example_orders and oid = "''o1''" and isAdmin = True and userId = "''zz''"]
    getById_no_existence_leak
      [where d = example_orders and oid = "''o1''" and isAdmin = False and userId = "''u2''"
         and ?d2.0 = example_db and ?oid2.0 = "''o9''"]
  by (auto simp: example_orders_def example_db_def)

text \<open>
  C3. \<^verbatim>\<open>createFromCart\<close> is all or nothing. Whenever it fails the store is unchanged, and it
  fails whenever a storage call of the transaction throws or the new order identifier is
  taken. In particular, for a cart that passes the checks, a throw at the order insert, the
  item inserts, the history insert or the cart purge yields the storage error and the
  store as it was, although the transaction body had by then advanced the counter in its
  own working state. Whenever it succeeds, the order is stored with its items and its one
  history entry, the counter holds exactly the order's number, one more than before, and
  the cart has been purged.
\<close>

theorem createFromCart_all_or_nothing:
  fixes d :: "'n::{zero,plus,times} db"
  shows
  "(createFromCart f newId now userId notes d = (Inl e, d1) \<longrightarrow> d1 = d) \<and>
   (f \<noteq> NoFault \<or> orders d newId \<noteq> None \<longrightarrow>
      (\<exists>e. createFromCart f newId now userId notes d = (Inl e, d))) \<and>
   (\<forall>c. carts d userId = Some c \<and> items_of_cart d (cart_id c) \<noteq> [] \<and>
        (\<forall>i \<in> set (items_of_cart d (cart_id c)).
           \<exists>p. products d (ci_productId i) = Some p \<and> p_isAvailable p) \<and>
        f \<in> {FailOrderInsert, FailOrderItemsInsert, FailHistoryInsert, FailCartPurge} \<longrightarrow>
      createFromCart f newId now userId notes d = (Inl StoreError, d) \<and>
      (\<forall>tot ois. \<exists>d1. create_tx f newId now userId notes tot ois (cart_id c) d
                         = (Inl StoreError, d1) \<and>
                       counters d1 ''order_counter'' = Some (counter_value d + 1))) \<and>
   (createFromCart f newId now userId notes d = (Inr ord, d') \<longrightarrow>
      orders d' = (orders d)(newId \<mapsto> ord) \<and> orders d newId = None \<and>
      o_items ord \<noteq> [] \<and> length (o_statusHistory ord) = 1 \<and>
      counters d' = (counters d)(''order_counter'' \<mapsto> o_orderNumber ord) \<and>
      o_orderNumber ord = counter_value d + 1 \<and>
      (\<exists>c. carts d userId = Some c \<and> carts d' = carts d \<and>
           cartItems d' = filter (\<lambda>i. ci_cartId i \<noteq> cart_id c) (cartItems d)))"
proof -
  have A: "createFromCart f newId now userId notes d = (Inl e, d1) \<longrightarrow> d1 = d"
    by (auto dest: createFromCart_Inl)
  have B: "f \<noteq> NoFault \<or> orders d newId \<noteq> None \<longrightarrow>
      (\<exists>e. createFromCart f newId now userId notes d = (Inl e, d))"
  proof
    assume bad: "f \<noteq> NoFault \<or> orders d newId \<noteq> None"
    obtain r d' where run: "createFromCart f newId now userId notes d = (r, d')"
      by (cases "createFromCart f newId now userId notes d")
    show "\<exists>e. createFromCart f newId now userId notes d = (Inl e, d)"
    proof (cases r)
      case (Inl e)
      with run createFromCart_Inl [of f newId now userId "notes" d e d'] show ?thesis by auto
    next
      case (Inr ord)
      with run createFromCart_Inr [of f newId now userId "notes" d ord d'] bad
      show ?thesis by auto
    qed
  qed
  have C: "\<forall>c. carts d userId = Some c \<and> items_of_cart d (cart_id c) \<noteq> [] \<and>
        (\<forall>i \<in> set (items_of_cart d (cart_id c)).
           \<exists>p. products d (ci_productId i) = Some p \<and> p_isAvailable p) \<and>
        f \<in> {FailOrderInsert, FailOrderItemsInsert, FailHistoryInsert, FailCartPurge} \<longrightarrow>
      createFromCart f newId now userId notes d = (Inl StoreError, d) \<and>
      (\<forall>tot ois. \<exists>d1. create_tx f newId now userId notes tot ois (cart_id c) d
                         = (Inl StoreError, d1) \<and>
                       counters d1 ''order_counter'' = Some (counter_value d + 1))"
  proof (intro allI impI)
    fix c :: cart
    let ?rows = "items_of_cart d (cart_id c)"
    let ?items = "map (\<lambda>i. (i, the (products d (ci_productId i)))) ?rows"
    assume h: "carts d userId = Some c \<and> ?rows \<noteq> [] \<and>
        (\<forall>i \<in> set ?rows. \<exists>p. products d (ci_productId i) = Some p \<and> p_isAvailable p) \<and>
        f \<in> {FailOrderInsert, FailOrderItemsInsert, FailHistoryInsert, FailCartPurge}"
    have inc: "include_product (products d) ?rows = Inr ?items"
      using h by (intro include_product_total) auto
    have chk: "check_available ?items = None"
      unfolding check_available_None using h by auto
    have run: "createFromCart f newId now userId notes d =
      transaction
        (create_tx f newId now userId notes (fst (prepare_items 0 ?items))
           (snd (prepare_items 0 ?items)) (cart_id c)) d"
      using h by (simp add: createFromCart_def inc chk split: prod.splits)
    from h have f: "f \<in> {FailOrderInsert, FailOrderItemsInsert, FailHistoryInsert, FailCartPurge}"
      by blast
    from create_tx_counter_advanced [OF f, of newId now userId "notes"
        "fst (prepare_items 0 ?items)" "snd (prepare_items 0 ?items)" "cart_id c" d]
    have "createFromCart f newId now userId notes d = (Inl StoreError, d)"
      unfolding run by (auto simp: transaction_def)
    moreover have "\<forall>tot ois. \<exists>d1. create_tx f newId now userId notes tot ois (cart_id c) d
                         = (Inl StoreError, d1) \<and>
                       counters d1 ''order_counter'' = Some (counter_value d + 1)"
      by (intro allI create_tx_counter_advanced [OF f])
    ultimately show "createFromCart f newId now userId notes d = (Inl StoreError, d) \<and>
      (\<forall>tot ois. \<exists>d1. create_tx f newId now userId notes tot ois (cart_id c) d
                         = (Inl StoreError, d1) \<and>
                       counters d1 ''order_counter'' = Some (counter_value d + 1))"
      by blast
  qed
  have D: "createFromCart f newId now userId notes d = (Inr ord, d') \<longrightarrow>
      orders d' = (orders d)(newId \<mapsto> ord) \<and> orders d newId = None \<and>
      o_items ord \<noteq> [] \<and> length (o_statusHistory ord) = 1 \<and>
      counters d' = (counters d)(''order_counter'' \<mapsto> o_orderNumber ord) \<and>
      o_orderNumber ord = counter_value d + 1 \<and>
      (\<exists>c. carts d userId = Some c \<and> carts d' = carts d \<and>
           cartItems d' = filter (\<lambda>i. ci_cartId i \<noteq> cart_id c) (cartItems d))"
  proof
    assume run: "createFromCart f newId now userId notes d = (Inr ord, d')"
    from createFromCart_Inr [OF run] obtain c :: cart and items where
      f: "f = NoFault" and fresh: "orders d newId = None" and c: "carts d userId = Some c"
      and ne: "items \<noteq> []"
      and body: "create_tx NoFault newId now userId notes (fst (prepare_items 0 items))
              (snd (prepare_items 0 items)) (cart_id c) d = (Inr ord, d')"
      by blast
    from body ne c fresh
    show "orders d' = (orders d)(newId \<mapsto> ord) \<and> orders d newId = None \<and>
      o_items ord \<noteq> [] \<and> length (o_statusHistory ord) = 1 \<and>
      counters d' = (counters d)(''order_counter'' \<mapsto> o_orderNumber ord) \<and>
      o_orderNumber ord = counter_value d + 1 \<and>
      (\<exists>c. carts d userId = Some c \<and> carts d' = carts d \<and>
           cartItems d' = filter (\<lambda>i. ci_cartId i \<noteq> cart_id c) (cartItems d))"
      by (auto simp: create_tx_NoFault [OF fresh] Let_def prepare_items_eq)
  qed
  show ?thesis
    by (intro conjI) (rule A, rule B, rule C, rule D)
qed

theorem createFromCart_all_or_nothing_witness:
  "createFromCart FailCartPurge ''o1'' 7 ''u1'' None example_db = (Inl StoreError, example_db) \<and>
   createFromCart FailHistoryInsert ''o1'' 7 ''u1'' None example_db = (Inl StoreError, example_db) \<and>
   createFromCart FailOrderItemsInsert ''o1'' 7 ''u1'' None example_db = (Inl StoreError, example_db) \<and>
   createFromCart FailOrderInsert ''o1'' 7 ''u1'' None example_db = (Inl StoreError, example_db) \<and>
   (\<exists>e. createFromCart NoFault ''o1'' 7 ''u1'' None example_orders = (Inl e, example_orders)) \<and>
   (\<exists>ord d'. createFromCart NoFault ''o1'' 7 ''u1'' None example_db = (Inr ord, d') \<and>
      orders d' ''o1'' = Some ord \<and> length (o_items ord) = 2 \<and>
      counters d' ''order_counter'' = Some (o_orderNumber ord) \<and> items_of_cart d' ''c1'' = [])"
proof -
  have u1: "carts example_db ''u1'' = Some \<lparr>cart_id = ''c1''\<rparr>"
    by (simp add: example_db_def)
  obtain ord d' where ok: "createFromCart NoFault ''o1'' 7 ''u1'' None example_db = (Inr ord, d')"
    and two: "length (o_items ord) = 2"
    by (simp add: example_db_def createFromCart_def items_of_cart_def transaction_def
        create_tx_def counter_upsert_def order_create_def cartItem_deleteMany_def Let_def)
  from createFromCart_all_or_nothing
      [of NoFault "''o1''" 7 "''u1''" None example_db _ _ ord d'] ok two u1
  have good: "orders d' ''o1'' = Some ord \<and> length (o_items ord) = 2 \<and>
      counters d' ''order_counter'' = Some (o_orderNumber ord) \<and> items_of_cart d' ''c1'' = []"
    by (simp add: items_of_cart_def)
  from createFromCart_all_or_nothing [of FailCartPurge "''o1''" 7 "''u1''" None example_db]
    createFromCart_all_or_nothing [of FailHistoryInsert "''o1''" 7 "''u1''" None example_db]
    createFromCart_all_or_nothing [of FailOrderItemsInsert "''o1''" 7 "''u1''" None example_db]
    createFromCart_all_or_nothing [of FailOrderInsert "''o1''" 7 "''u1''" None example_db]
    createFromCart_all_or_nothing [of NoFault "''o1''" 7 "''u1''" None example_orders]
  have bad: "createFromCart FailCartPurge ''o1'' 7 ''u1'' None example_db = (Inl StoreError, example_db) \<and>
   createFromCart FailHistoryInsert ''o1'' 7 ''u1'' None example_db = (Inl StoreError, example_db) \<and>
   createFromCart FailOrderItemsInsert ''o1'' 7 ''u1'' None example_db = (Inl StoreError, example_db) \<and>
   createFromCart FailOrderInsert ''o1'' 7 ''u1'' None example_db = (Inl StoreError, example_db) \<and>
   (\<exists>e. createFromCart NoFault ''o1'' 7 ''u1'' None example_orders = (Inl e, example_orders))"
    by (simp add: example_db_def example_orders_def items_of_cart_def)
  from bad good ok show ?thesis by blast
qed

text \<open>
  C5. Whatever the storage layer would do afterwards, \<^verbatim>\<open>createFromCart\<close> fails with the 400
  error "Carrinho vazio" when the user has no cart or a cart without items, and, when some
  item of the cart refers to a product that is not available, with the 400 error naming the
  first such product in cart order. In both cases the store returned is the store given:
  no order, no order item, the counter and the cart as they were.
\<close>

theorem createFromCart_rejects_before_mutation:
  fixes d :: "'n::{zero,plus,times} db"
  shows
  "(carts d userId = None \<or> (\<exists>c. carts d userId = Some c \<and> items_of_cart d (cart_id c) = []) \<longrightarrow>
      createFromCart f newId now userId notes d = (Inl (AppError ''Carrinho vazio'' 400), d)) \<and>
   (\<forall>c. carts d userId = Some c \<and>
        (\<forall>i \<in> set (items_of_cart d (cart_id c)). products d (ci_productId i) \<noteq> None) \<and>
        (\<exists>i \<in> set (items_of_cart d (cart_id c)).
           \<not> p_isAvailable (the (products d (ci_productId i)))) \<longrightarrow>
      (\<exists>i \<in> set (items_of_cart d (cart_id c)).
         \<not> p_isAvailable (the (products d (ci_productId i))) \<and>
         find (\<lambda>j. \<not> p_isAvailable (the (products d (ci_productId j))))
           (items_of_cart d (cart_id c)) = Some i \<and>
         createFromCart f newId now userId notes d =
           (Inl (AppError (''Produto '' @ [CHR 0x22] @ p_name (the (products d (ci_productId i)))
                            @ [CHR 0x22] @ '' nao esta mais disponivel'') 400), d)))"
proof (intro conjI impI allI)
  assume "carts d userId = None \<or> (\<exists>c. carts d userId = Some c \<and> items_of_cart d (cart_id c) = [])"
  then show "createFromCart f newId now userId notes d = (Inl (AppError ''Carrinho vazio'' 400), d)"
    by (auto simp: createFromCart_def)
next
  fix c :: cart
  let ?rows = "items_of_cart d (cart_id c)"
  let ?P = "\<lambda>j. \<not> p_isAvailable (the (products d (ci_productId j)))"
  assume h: "carts d userId = Some c \<and> (\<forall>i \<in> set ?rows. products d (ci_productId i) \<noteq> None) \<and>
        (\<exists>i \<in> set ?rows. ?P i)"
  then have inc: "include_product (products d) ?rows =
      Inr (map (\<lambda>i. (i, the (products d (ci_productId i)))) ?rows)"
    by (intro include_product_total) auto
  from h obtain i where i: "find ?P ?rows = Some i"
    by (cases "find ?P ?rows") (auto simp: find_None_iff)
  then have mem: "i \<in> set ?rows" "?P i"
    by (auto simp: find_Some_iff)
  from mem have ne: "?rows \<noteq> []" by auto
  have "createFromCart f newId now userId notes d =
           (Inl (AppError (''Produto '' @ [CHR 0x22] @ p_name (the (products d (ci_productId i)))
                            @ [CHR 0x22] @ '' nao esta mais disponivel'') 400), d)"
    using h ne by (simp add: createFromCart_def inc check_available_joined i)
  with mem i show "\<exists>i \<in> set ?rows. ?P i \<and> find ?P ?rows = Some i \<and>
         createFromCart f newId now userId notes d =
           (Inl (AppError (''Produto '' @ [CHR 0x22] @ p_name (the (products d (ci_productId i)))
                            @ [CHR 0x22] @ '' nao esta mais disponivel'') 400), d)"
    by blast
qed

theorem createFromCart_rejects_before_mutation_witness:
  "createFromCart NoFault ''o1'' 7 ''u9'' None example_db =
     (Inl (AppError ''Carrinho vazio'' 400), example_db) \<and>
   createFromCart NoFault ''o1'' 7 ''u2'' None example_db =
     (Inl (AppError (''Produto '' @ [CHR 0x22] @ ''Suco'' @ [CHR 0x22]
                      @ '' nao esta mais disponivel'') 400), example_db)"
  using createFromCart_rejects_before_mutation
      [of example_db "''u9''" NoFault "''o1''" 7 None]
    createFromCart_rejects_before_mutation
      [of example_db "''u2''" NoFault "''o1''" 7 None]
  by (auto simp: example_db_def items_of_cart_def)


text \<open>
  C4. A successful \<^verbatim>\<open>createFromCart\<close> sets the \<^verbatim>\<open>order_counter\<close> row to its former value
  plus one (a missing row counting as zero, so that the first value is 1) and gives the
  order that value as its number. Hence, for every sequence of service calls run one after
  the other, whatever calls fail or succeed in between, the numbers of the orders created
  are, in order of creation, the consecutive integers that follow the counter's initial
  value: no duplicate, no gap, and the counter ends at the last number given.
\<close>

theorem order_numbers_sequential:
  fixes d :: "'n::{zero,plus,times,ord} db"
  shows
  "(createFromCart f newId now userId notes d = (Inr ord, d') \<longrightarrow>
      o_orderNumber ord = counter_value d + 1 \<and>
      counters d' = (counters d)(''order_counter'' \<mapsto> counter_value d + 1) \<and>
      (counters d ''order_counter'' = None \<longrightarrow>
         o_orderNumber ord = 1 \<and> counters d' ''order_counter'' = Some 1)) \<and>
   fst (run cs d) = [counter_value d + 1 .. counter_value d + int (length (fst (run cs d)))] \<and>
   distinct (fst (run cs d)) \<and> sorted (fst (run cs d)) \<and>
   counter_value (snd (run cs d)) = counter_value d + int (length (fst (run cs d)))"
proof -
  have one: "createFromCart f newId now userId notes d = (Inr ord, d') \<longrightarrow>
      o_orderNumber ord = counter_value d + 1 \<and>
      counters d' = (counters d)(''order_counter'' \<mapsto> counter_value d + 1) \<and>
      (counters d ''order_counter'' = None \<longrightarrow>
         o_orderNumber ord = 1 \<and> counters d' ''order_counter'' = Some 1)"
    by (auto dest!: createFromCart_number simp: counter_value_def)
  have seq: "fst (run cs d) =
      [counter_value d + 1 .. counter_value d + int (length (fst (run cs d)))]"
    and cnt: "counter_value (snd (run cs d)) = counter_value d + int (length (fst (run cs d)))"
    using run_counter [of cs d] by auto
  have "distinct [counter_value d + 1 .. counter_value d + int (length (fst (run cs d)))]"
    "sorted [counter_value d + 1 .. counter_value d + int (length (fst (run cs d)))]"
    by simp_all
  with seq have ds: "distinct (fst (run cs d))" "sorted (fst (run cs d))"
    by simp_all
  show ?thesis
    by (intro conjI) (rule one, rule seq, rule ds, rule ds, rule cnt)
qed

theorem order_numbers_sequential_witness:
  "fst (run example_calls example_db) = [1, 2] \<and>
   counter_value (snd (run example_calls example_db)) = 2 \<and>
   (\<exists>ord d'. createFromCart NoFault ''o1'' 7 ''u1'' None example_db = (Inr ord, d') \<and>
      o_orderNumber ord = 1 \<and> counters d' ''order_counter'' = Some 1) \<and>
   (\<exists>ord d'. createFromCart NoFault ''o1'' 7 ''u1'' None (example_db\<lparr>counters := Map.empty\<rparr>)
        = (Inr ord, d') \<and>
      o_orderNumber ord = 1 \<and> counters d' ''order_counter'' = Some 1)"
proof -
  obtain ord d' where c: "createFromCart NoFault ''o1'' 7 ''u1'' None example_db = (Inr ord, d')"
    by (simp add: example_db_def createFromCart_def items_of_cart_def
      transaction_def create_tx_def counter_upsert_def order_create_def cartItem_deleteMany_def
      Let_def)
  obtain ord0 d0 where c0:
    "createFromCart NoFault ''o1'' 7 ''u1'' None (example_db\<lparr>counters := Map.empty\<rparr>)
       = (Inr ord0, d0)"
    by (simp add: example_db_def createFromCart_def items_of_cart_def
      transaction_def create_tx_def counter_upsert_def order_create_def cartItem_deleteMany_def
      Let_def)
  have len: "length (fst (run example_calls example_db)) = 2"
    by (simp add: example_run)
  have cv: "counter_value example_db = 0"
    by (simp add: counter_value_def example_db_def)
  from order_numbers_sequential
    [of NoFault "''o1''" 7 "''u1''" None example_db ord d' example_calls]
  have seq: "fst (run example_calls example_db) = [1, 2] \<and>
   counter_value (snd (run example_calls example_db)) = 2 \<and>
   o_orderNumber ord = 1 \<and> counters d' ''order_counter'' = Some 1"
    unfolding len cv using c by (simp add: upto_rec1)
  from order_numbers_sequential
    [of NoFault "''o1''" 7 "''u1''" None "example_db\<lparr>counters := Map.empty\<rparr>" ord0 d0 "[]"]
  have first: "o_orderNumber ord0 = 1 \<and> counters d0 ''order_counter'' = Some 1"
    using c0 by simp
  from seq first c c0 show ?thesis by blast
qed

text \<open>
  C9. Every service call keeps the invariant that the cart item table holds at most one row
  per (cart, product) pair. For an available product, \<^verbatim>\<open>addItem\<close> on a product the user's
  cart already holds changes rows in place, so the number of rows is the same, and the one
  row of that pair then carries the former quantity plus the given one; \<^verbatim>\<open>addItem\<close> on a
  product the cart does not hold appends exactly one row, with the given quantity, which
  is then the only row of that pair.
\<close>

theorem cart_one_item_per_product:
  fixes d :: "'n::{zero,plus,times,ord} db"
  shows
  "(cart_inv d \<longrightarrow> cart_inv (snd (exec c d))) \<and>
   (products d productId = Some p \<and> p_isAvailable p \<longrightarrow>
      (let cid = (case carts d userId of Some c \<Rightarrow> cart_id c | None \<Rightarrow> newCartId);
           d' = snd (addItem newCartId newItemId now userId productId quantity notes d);
           new = \<lparr>ci_id = newItemId, ci_cartId = cid, ci_productId = productId,
                  ci_quantity = quantity, ci_notes = notes, ci_createdAt = now\<rparr>
       in (cartItem_findUnique d cid productId = Some e \<longrightarrow>
             cartItems d' =
               map (\<lambda>i. if ci_id i = ci_id e
                         then i\<lparr>ci_quantity := ci_quantity e + quantity,
                                ci_notes := js_or notes (ci_notes e)\<rparr>
                         else i) (cartItems d) \<and>
             length (cartItems d') = length (cartItems d) \<and>
             (cart_inv d \<longrightarrow>
                filter (\<lambda>i. ci_cartId i = cid \<and> ci_productId i = productId) (cartItems d') =
                  [e\<lparr>ci_quantity := ci_quantity e + quantity,
                     ci_notes := js_or notes (ci_notes e)\<rparr>])) \<and>
          (cartItem_findUnique d cid productId = None \<longrightarrow>
             cartItems d' = cartItems d @ [new] \<and>
             filter (\<lambda>i. ci_cartId i = cid \<and> ci_productId i = productId) (cartItems d') = [new])))"
proof -
  let ?cid = "case carts d userId of Some c \<Rightarrow> cart_id c | None \<Rightarrow> newCartId"
  let ?d' = "snd (addItem newCartId newItemId now userId productId quantity notes d)"
  let ?new = "\<lparr>ci_id = newItemId, ci_cartId = ?cid, ci_productId = productId,
                  ci_quantity = quantity, ci_notes = notes, ci_createdAt = now\<rparr>"
  let ?P = "\<lambda>i. ci_cartId i = ?cid \<and> ci_productId i = productId"
  let ?upd = "\<lambda>i. if ci_id i = ci_id e
                         then i\<lparr>ci_quantity := ci_quantity e + quantity,
                                ci_notes := js_or notes (ci_notes e)\<rparr>
                         else i"
  have A: "cart_inv d \<longrightarrow> cart_inv (snd (exec c d))"
    by (simp add: exec_inv)
  have B: "cartItem_findUnique d ?cid productId = Some e \<longrightarrow>
             cartItems ?d' = map ?upd (cartItems d) \<and>
             length (cartItems ?d') = length (cartItems d) \<and>
             (cart_inv d \<longrightarrow> filter ?P (cartItems ?d') =
                  [e\<lparr>ci_quantity := ci_quantity e + quantity,
                     ci_notes := js_or notes (ci_notes e)\<rparr>])"
    if pr: "products d productId = Some p" "p_isAvailable p"
  proof
    assume f: "cartItem_findUnique d ?cid productId = Some e"
    have eq: "cartItems ?d' = map ?upd (cartItems d)"
      using f by (simp add: addItem_cartItems [OF pr] Let_def)
    have "filter ?P (map ?upd (cartItems d)) =
            [e\<lparr>ci_quantity := ci_quantity e + quantity, ci_notes := js_or notes (ci_notes e)\<rparr>]"
      if inv: "cart_inv d"
    proof -
      have k: "?P \<circ> ?upd = ?P" by (auto simp: fun_eq_iff)
      have "filter ?P (cartItems d) = [e]"
        using inv f unfolding cart_inv_def cartItem_findUnique_def
        by (rule filter_pair_unique)
      then show ?thesis by (simp add: filter_map k)
    qed
    with eq show "cartItems ?d' = map ?upd (cartItems d) \<and>
             length (cartItems ?d') = length (cartItems d) \<and>
             (cart_inv d \<longrightarrow> filter ?P (cartItems ?d') =
                  [e\<lparr>ci_quantity := ci_quantity e + quantity,
                     ci_notes := js_or notes (ci_notes e)\<rparr>])"
      by simp
  qed
  have C: "cartItem_findUnique d ?cid productId = None \<longrightarrow>
             cartItems ?d' = cartItems d @ [?new] \<and> filter ?P (cartItems ?d') = [?new]"
    if pr: "products d productId = Some p" "p_isAvailable p"
  proof
    assume f: "cartItem_findUnique d ?cid productId = None"
    have eq: "cartItems ?d' = cartItems d @ [?new]"
      using f by (simp add: addItem_cartItems [OF pr] Let_def)
    from f have "filter ?P (cartItems d) = []"
      by (auto simp: cartItem_findUnique_def find_None_iff filter_empty_conv)
    with eq show "cartItems ?d' = cartItems d @ [?new] \<and> filter ?P (cartItems ?d') = [?new]"
      by simp
  qed
  show ?thesis
    unfolding Let_def using A B C by blast
qed


theorem cart_one_item_per_product_witness:
  "cart_inv example_db \<and>
   cart_inv (snd (exec (AddItem ''c9'' ''i9'' 9 ''u1'' ''pA'' 3 None) example_db)) \<and>
   filter (\<lambda>i. ci_cartId i = ''c1'' \<and> ci_productId i = ''pA'')
     (cartItems (snd (addItem ''c9'' ''i9'' 9 ''u1'' ''pA'' 3 None example_db))) =
     [\<lparr>ci_id = ''i1'', ci_cartId = ''c1'', ci_productId = ''pA'', ci_quantity = 5,
       ci_notes = None, ci_createdAt = 11\<rparr>] \<and>
   cartItems (snd (addItem ''c9'' ''i9'' 9 ''u3'' ''pB'' 1 None example_db)) =
     cartItems example_db @
       [\<lparr>ci_id = ''i9'', ci_cartId = ''c9'', ci_productId = ''pB'', ci_quantity = 1,
         ci_notes = None, ci_createdAt = 9\<rparr>]"
proof -
  have inv: "cart_inv example_db"
    by (simp add: cart_inv_def example_db_def)
  have pA: "products example_db ''pA'' =
      Some \<lparr>p_name = ''Cafe'', p_price = 5, p_isAvailable = True\<rparr>"
    and pB: "products example_db ''pB'' =
      Some \<lparr>p_name = ''Pao'', p_price = 3, p_isAvailable = True\<rparr>"
    and u1: "carts example_db ''u1'' = Some \<lparr>cart_id = ''c1''\<rparr>"
    and u3: "carts example_db ''u3'' = None"
    by (simp_all add: example_db_def)
  have f1: "cartItem_findUnique example_db ''c1'' ''pA'' =
      Some \<lparr>ci_id = ''i1'', ci_cartId = ''c1'', ci_productId = ''pA'', ci_quantity = 2,
            ci_notes = None, ci_createdAt = 11\<rparr>"
    and f3: "cartItem_findUnique example_db ''c9'' ''pB'' = None"
    by (simp_all add: cartItem_findUnique_def example_db_def)
  from cart_one_item_per_product
    [of example_db "AddItem ''c9'' ''i9'' 9 ''u1'' ''pA'' 3 None" "''pA''"
        "\<lparr>p_name = ''Cafe'', p_price = 5, p_isAvailable = True\<rparr>" "''c9''" "''u1''" "''i9''"
        9 3 None
        "\<lparr>ci_id = ''i1'', ci_cartId = ''c1'', ci_productId = ''pA'', ci_quantity = 2,
          ci_notes = None, ci_createdAt = 11\<rparr>"]
  have one: "cart_inv (snd (exec (AddItem ''c9'' ''i9'' 9 ''u1'' ''pA'' 3 None) example_db)) \<and>
   filter (\<lambda>i. ci_cartId i = ''c1'' \<and> ci_productId i = ''pA'')
     (cartItems (snd (addItem ''c9'' ''i9'' 9 ''u1'' ''pA'' 3 None example_db))) =
     [\<lparr>ci_id = ''i1'', ci_cartId = ''c1'', ci_productId = ''pA'', ci_quantity = 5,
       ci_notes = None, ci_createdAt = 11\<rparr>]"
    by (simp (no_asm_use) add: Let_def inv pA u1 f1 js_or_def) blast
  from cart_one_item_per_product
    [of example_db "AddItem ''c9'' ''i9'' 9 ''u3'' ''pB'' 1 None" "''pB''"
        "\<lparr>p_name = ''Pao'', p_price = 3, p_isAvailable = True\<rparr>" "''c9''" "''u3''" "''i9''"
        9 1 None]
  have two: "cartItems (snd (addItem ''c9'' ''i9'' 9 ''u3'' ''pB'' 1 None example_db)) =
     cartItems example_db @
       [\<lparr>ci_id = ''i9'', ci_cartId = ''c9'', ci_productId = ''pB'', ci_quantity = 1,
         ci_notes = None, ci_createdAt = 9\<rparr>]"
    by (simp (no_asm_use) add: Let_def pB u3 f3) blast
  from inv one two show ?thesis by simp
qed


text \<open>
  C10. For a user without a cart, given that no cart item refers to the identifier the new
  cart receives, \<^verbatim>\<open>getCart\<close> creates the cart and returns it with no items, total 0 and
  item count 0. Whenever \<^verbatim>\<open>getCart\<close> returns a cart, its items are the rows of the user's
  cart with their current products, \<^verbatim>\<open>total\<close> is the sum, from 0 and in the order returned,
  of price times quantity, and \<^verbatim>\<open>itemCount\<close> the sum of the quantities; and it does return
  one whenever every cart item refers to an existing product. \<^verbatim>\<open>clearCart\<close>, \<^verbatim>\<open>updateItem\<close>
  and \<^verbatim>\<open>removeItem\<close> for a user without a cart fail with the 404 error "Carrinho nao
  encontrado" and create nothing.
\<close>

theorem getCart_creates_and_totals:
  fixes d :: "'n::{zero,plus,times,ord} db"
  shows
  "(carts d userId = None \<and> items_of_cart d newCartId = [] \<longrightarrow>
      getCart newCartId userId d =
        (Inr \<lparr>cv_id = newCartId, cv_userId = userId, cv_items = [], cv_total = 0,
              cv_itemCount = 0\<rparr>,
         d\<lparr>carts := (carts d)(userId \<mapsto> \<lparr>cart_id = newCartId\<rparr>)\<rparr>)) \<and>
   (getCart newCartId userId d = (Inr v, d') \<longrightarrow>
      cv_total v = foldl (+) 0 (map (\<lambda>(i, p). p_price p * ci_quantity i) (cv_items v)) \<and>
      cv_itemCount v = foldl (+) 0 (map (\<lambda>(i, p). ci_quantity i) (cv_items v)) \<and>
      carts d' userId = Some \<lparr>cart_id = cv_id v\<rparr> \<and>
      mset (map fst (cv_items v)) = mset (items_of_cart d' (cv_id v)) \<and>
      (\<forall>(i, p) \<in> set (cv_items v). products d' (ci_productId i) = Some p)) \<and>
   ((\<forall>i \<in> set (cartItems d). products d (ci_productId i) \<noteq> None) \<longrightarrow>
      (\<exists>v d'. getCart newCartId userId d = (Inr v, d'))) \<and>
   (carts d userId = None \<longrightarrow>
      clearCart newCartId userId d = (Inl (AppError ''Carrinho nao encontrado'' 404), d) \<and>
      updateItem newCartId userId itemId quantity notes d =
        (Inl (AppError ''Carrinho nao encontrado'' 404), d) \<and>
      removeItem newCartId userId itemId d =
        (Inl (AppError ''Carrinho nao encontrado'' 404), d))"
proof -
  have A: "carts d userId = None \<and> items_of_cart d newCartId = [] \<longrightarrow>
      getCart newCartId userId d =
        (Inr \<lparr>cv_id = newCartId, cv_userId = userId, cv_items = [], cv_total = 0,
              cv_itemCount = 0\<rparr>,
         d\<lparr>carts := (carts d)(userId \<mapsto> \<lparr>cart_id = newCartId\<rparr>)\<rparr>)"
    by (simp add: getCart_None)
  have B: "getCart newCartId userId d = (Inr v, d') \<longrightarrow>
      cv_total v = foldl (+) 0 (map (\<lambda>(i, p). p_price p * ci_quantity i) (cv_items v)) \<and>
      cv_itemCount v = foldl (+) 0 (map (\<lambda>(i, p). ci_quantity i) (cv_items v)) \<and>
      carts d' userId = Some \<lparr>cart_id = cv_id v\<rparr> \<and>
      mset (map fst (cv_items v)) = mset (items_of_cart d' (cv_id v)) \<and>
      (\<forall>(i, p) \<in> set (cv_items v). products d' (ci_productId i) = Some p)"
  proof
    assume run: "getCart newCartId userId d = (Inr v, d')"
    from getCart_Inr [OF run] obtain rows where
      inc: "include_product (products d') rows = Inr (cv_items v)"
      and rows: "mset rows = mset (items_of_cart d' (cv_id v))"
      and rest: "cv_total v = foldl (+) 0 (map (\<lambda>(i, p). p_price p * ci_quantity i) (cv_items v))"
        "cv_itemCount v = foldl (+) 0 (map (\<lambda>(i, p). ci_quantity i) (cv_items v))"
        "carts d' userId = Some \<lparr>cart_id = cv_id v\<rparr>"
      by blast
    from include_product_fst [OF inc] rows
    have "mset (map fst (cv_items v)) = mset (items_of_cart d' (cv_id v))" by simp
    with rest include_product_snd [OF inc]
    show "cv_total v = foldl (+) 0 (map (\<lambda>(i, p). p_price p * ci_quantity i) (cv_items v)) \<and>
      cv_itemCount v = foldl (+) 0 (map (\<lambda>(i, p). ci_quantity i) (cv_items v)) \<and>
      carts d' userId = Some \<lparr>cart_id = cv_id v\<rparr> \<and>
      mset (map fst (cv_items v)) = mset (items_of_cart d' (cv_id v)) \<and>
      (\<forall>(i, p) \<in> set (cv_items v). products d' (ci_productId i) = Some p)"
      by simp
  qed
  have C: "(\<forall>i \<in> set (cartItems d). products d (ci_productId i) \<noteq> None) \<longrightarrow>
      (\<exists>v d'. getCart newCartId userId d = (Inr v, d'))"
    by (intro impI getCart_total)
  have D: "carts d userId = None \<longrightarrow>
      clearCart newCartId userId d = (Inl (AppError ''Carrinho nao encontrado'' 404), d) \<and>
      updateItem newCartId userId itemId quantity notes d =
        (Inl (AppError ''Carrinho nao encontrado'' 404), d) \<and>
      removeItem newCartId userId itemId d =
        (Inl (AppError ''Carrinho nao encontrado'' 404), d)"
    by (simp add: clearCart_def updateItem_def removeItem_def)
  show ?thesis
    by (intro conjI) (rule A, rule B, rule C, rule D)
qed


theorem getCart_creates_and_totals_witness:
  "getCart ''c9'' ''u3'' example_db =
     (Inr \<lparr>cv_id = ''c9'', cv_userId = ''u3'', cv_items = [], cv_total = 0, cv_itemCount = 0\<rparr>,
      example_db\<lparr>carts := (carts example_db)(''u3'' \<mapsto> \<lparr>cart_id = ''c9''\<rparr>)\<rparr>) \<and>
   (\<exists>v d'. getCart ''c9'' ''u1'' example_db = (Inr v, d') \<and> cv_total v = 13 \<and>
      cv_itemCount v = 3 \<and> length (cv_items v) = 2) \<and>
   clearCart ''c9'' ''u3'' example_db = (Inl (AppError ''Carrinho nao encontrado'' 404), example_db) \<and>
   updateItem ''c9'' ''u3'' ''i1'' 4 None example_db =
     (Inl (AppError ''Carrinho nao encontrado'' 404), example_db) \<and>
   removeItem ''c9'' ''u3'' ''i1'' example_db =
     (Inl (AppError ''Carrinho nao encontrado'' 404), example_db)"
proof -
  have u3: "carts example_db ''u3'' = None" "items_of_cart example_db ''c9'' = []"
    by (simp_all add: example_db_def items_of_cart_def)
  obtain v d' where run: "getCart ''c9'' ''u1'' example_db = (Inr v, d')"
    and items: "map fst (cv_items v) =
      [\<lparr>ci_id = ''i2'', ci_cartId = ''c1'', ci_productId = ''pB'', ci_quantity = 1,
          ci_notes = None, ci_createdAt = 12\<rparr>,
       \<lparr>ci_id = ''i1'', ci_cartId = ''c1'', ci_productId = ''pA'', ci_quantity = 2,
          ci_notes = None, ci_createdAt = 11\<rparr>]"
      "map (p_price \<circ> snd) (cv_items v) = [3, 5]"
    by (simp add: getCart_def example_db_def items_of_cart_def order_by_desc_def Let_def)
  from items have shape: "\<exists>a b. cv_items v =
      [(\<lparr>ci_id = ''i2'', ci_cartId = ''c1'', ci_productId = ''pB'', ci_quantity = 1,
          ci_notes = None, ci_createdAt = 12\<rparr>, a),
       (\<lparr>ci_id = ''i1'', ci_cartId = ''c1'', ci_productId = ''pA'', ci_quantity = 2,
          ci_notes = None, ci_createdAt = 11\<rparr>, b)] \<and> p_price a = 3 \<and> p_price b = 5"
    by (cases "cv_items v"; cases "tl (cv_items v)") auto
  have fk: "\<forall>i \<in> set (cartItems example_db). products example_db (ci_productId i) \<noteq> None"
    by (simp add: example_db_def)
  from fk getCart_creates_and_totals
      [of example_db "''u3''" "''c9''" _ _ "''i1''" 4 None]
    getCart_creates_and_totals
      [of example_db "''u1''" "''c9''" v d' "''i1''" 4 None]
  show ?thesis
    using u3 run shape by auto
qed

end
